theory Spec2Isabelle
  imports Complex_Main
begin

section \<open>Conventions of the embedding\<close>

text \<open>
  The program is TypeScript. Its values are modelled as follows.

  \<^item> A JavaScript string is a sequence of UTF-16 code units; it is modelled as the list of
    these code units (\<open>nat list\<close>), so that the whitespace class \<open>\s\<close> of a regular
    expression and the rupee sign U+20B9 are single elements, as they are in the program.
    \<open>str\<close> turns an ASCII literal of Isabelle into such a string.
  \<^item> A JavaScript number is an IEEE double. The billing arithmetic is modelled over the
    reals: every number is taken to be finite, and \<open>+\<close>, \<open>-\<close>, \<open>*\<close>, \<open>/\<close> exact. NaN,
    the infinities and rounding are outside the model.
  \<^item> The conversion of a number to a string (in a template literal) prints an integer
    below \<open>10^21\<close> in decimal digits; this is modelled by \<open>NumberToString\<close>. For any other
    number the digits depend on the binary representation of the double, and the
    conversion is a parameter \<open>fmt\<close> of the functions that print.
\<close>

type_synonym js_string = "nat list"

definition str :: "string \<Rightarrow> js_string" where
  "str s = map of_char s"

text \<open>The rupee sign U+20B9, one UTF-16 code unit.\<close>

definition rupee :: "js_string" where
  "rupee = [8377]"

fun digits :: "nat \<Rightarrow> js_string" where
  "digits n = (if n < 10 then [48 + n] else digits (n div 10) @ [48 + n mod 10])"

declare digits.simps [simp del]

definition int_string :: "int \<Rightarrow> js_string" where
  "int_string i = (if i < 0 then 45 # digits (nat (- i)) else digits (nat i))"

definition NumberToString :: "(real \<Rightarrow> js_string) \<Rightarrow> real \<Rightarrow> js_string" where
  "NumberToString fmt x =
     (if x = of_int \<lfloor>x\<rfloor> \<and> \<bar>x\<bar> < 10 ^ 21 then int_string \<lfloor>x\<rfloor> else fmt x)"

text \<open>\<open>Array.prototype.join\<close> on an array of strings.\<close>

fun join :: "js_string \<Rightarrow> js_string list \<Rightarrow> js_string" where
  "join sep [] = []"
| "join sep [x] = x"
| "join sep (x # y # ys) = x @ sep @ join sep (y # ys)"

section \<open>The rate engine (src/utils/billingLogic.ts)\<close>

datatype ItemType = PARCEL | DOCUMENT

record BillingConfig =
  parcelSlab1Rate :: real
  parcelSlab2Rate :: real
  parcelSlab3Rate :: real
  documentRate :: real

text \<open>The object returned by \<open>calculateParcelAmount\<close>.\<close>

record ParcelAmount =
  total :: real
  breakdown :: js_string
  s1w :: real
  s2w :: real
  s3w :: real

text \<open>\<open>weight > 0 ? Math.ceil(weight) : 0\<close>\<close>

definition roundedWeight :: "real \<Rightarrow> real" where
  "roundedWeight weight = (if weight > 0 then of_int \<lceil>weight\<rceil> else 0)"

text \<open>One slab term of the breakdown: \<open>`${w}kg*${rate}`\<close>.\<close>

definition component :: "(real \<Rightarrow> js_string) \<Rightarrow> real \<Rightarrow> real \<Rightarrow> js_string" where
  "component fmt w r = NumberToString fmt w @ str ''kg*'' @ NumberToString fmt r"

text \<open>
  \<open>calculateParcelAmount\<close>, statement by statement. The mutable locals \<open>remaining\<close>,
  \<open>total\<close> and \<open>components\<close> are renamed after each of the three blocks that may
  assign them.
\<close>

definition calculateParcelAmount ::
    "(real \<Rightarrow> js_string) \<Rightarrow> real \<Rightarrow> BillingConfig \<Rightarrow> ParcelAmount" where
  "calculateParcelAmount fmt weight config =
     (let remaining0 = roundedWeight weight;
          s1 = min remaining0 10;
          total1 = (if s1 > 0 then s1 * parcelSlab1Rate config else 0);
          comps1 = (if s1 > 0 then [component fmt s1 (parcelSlab1Rate config)] else []);
          remaining1 = (if s1 > 0 then remaining0 - s1 else remaining0);
          s2 = (if remaining1 > 0 then min remaining1 100 else 0);
          total2 = (if remaining1 > 0 then total1 + s2 * parcelSlab2Rate config else total1);
          comps2 = (if remaining1 > 0
                    then comps1 @ [component fmt s2 (parcelSlab2Rate config)] else comps1);
          remaining2 = (if remaining1 > 0 then remaining1 - s2 else remaining1);
          s3 = (if remaining2 > 0 then remaining2 else 0);
          total3 = (if remaining2 > 0 then total2 + s3 * parcelSlab3Rate config else total2);
          comps3 = (if remaining2 > 0
                    then comps2 @ [component fmt s3 (parcelSlab3Rate config)] else comps2);
          joined = join (str '' + '') comps3
      in \<lparr> total = total3,
           breakdown = (if joined = [] then rupee @ str ''0.00'' else joined),
           s1w = s1, s2w = s2, s3w = s3 \<rparr>)"

text \<open>
  A row as \<open>calculateRow\<close> receives it: a JavaScript object in which \<open>rate\<close>,
  \<open>isManualRate\<close>, \<open>amount\<close> and \<open>breakdown\<close> may be absent (\<open>None\<close>). The row it
  returns has all four present. The fields \<open>id\<close>, \<open>type\<close> and \<open>breakdown\<close> of the source
  are \<open>row_id\<close>, \<open>row_type\<close> and \<open>row_breakdown\<close> here (\<open>id\<close> is a constant of HOL, and
  field names are global in Isabelle).
\<close>

record BillingRow =
  row_id :: js_string
  slNo :: real
  serialNo :: js_string
  description :: js_string
  row_type :: ItemType
  weight :: real
  rate :: "real option"
  isManualRate :: "bool option"
  amount :: "real option"
  row_breakdown :: "js_string option"

text \<open>\<open>row.rate || 0\<close> and \<open>row.isManualRate || false\<close>\<close>

definition rate_or_0 :: "real option \<Rightarrow> real" where
  "rate_or_0 r = (case r of None \<Rightarrow> 0 | Some x \<Rightarrow> x)"

definition flag_or_false :: "bool option \<Rightarrow> bool" where
  "flag_or_false b = (case b of None \<Rightarrow> False | Some x \<Rightarrow> x)"

definition calculateRow ::
    "(real \<Rightarrow> js_string) \<Rightarrow> BillingRow \<Rightarrow> BillingConfig \<Rightarrow> BillingRow" where
  "calculateRow fmt row config =
     (let rate0 = rate_or_0 (rate row);
          manual = flag_or_false (isManualRate row);
          rw = roundedWeight (weight row)
      in if row_type row = DOCUMENT then
           (let rate1 = (if \<not> manual then documentRate config else rate0)
            in row \<lparr> rate := Some rate1, isManualRate := Some manual,
                     amount := Some rate1,
                     row_breakdown := Some (str ''Flat: '' @ rupee @ NumberToString fmt rate1) \<rparr>)
         else
           (let calc = calculateParcelAmount fmt (weight row) config
            in if \<not> manual then
                 row \<lparr> rate := Some (if rw > 0 then total calc / rw else parcelSlab1Rate config),
                       isManualRate := Some manual,
                       amount := Some (total calc),
                       row_breakdown := Some (breakdown calc) \<rparr>
               else
                 row \<lparr> rate := Some rate0, isManualRate := Some manual,
                       amount := Some (rate0 * rw),
                       row_breakdown := Some (NumberToString fmt rw @ str ''kg * ''
                          @ NumberToString fmt rate0 @ str '' (Manual)'') \<rparr>))"

text \<open>
  Values used in the examples: the configuration \<open>{s1:3, s2:2, s3:1, doc:5}\<close> of the
  specification (also \<open>DEFAULT_CONFIG\<close> of src/App.tsx), and a number printer for the
  examples in which every printed number is a small integer, so that it is never called.
\<close>

definition example_config :: BillingConfig where
  "example_config =
     \<lparr> parcelSlab1Rate = 3, parcelSlab2Rate = 2, parcelSlab3Rate = 1, documentRate = 5 \<rparr>"

definition fmt_none :: "real \<Rightarrow> js_string" where
  "fmt_none x = []"

text \<open>A parcel row of 5.14 kg as the recognition delivers it, before any calculation.\<close>

definition example_row :: BillingRow where
  "example_row =
     \<lparr> row_id = str ''r1'', slNo = 1, serialNo = str ''AWB-1000'', description = str ''Item'',
       row_type = PARCEL, weight = 5.14, rate = None, isManualRate = Some False,
       amount = None, row_breakdown = None \<rparr>"

text \<open>
  The specification's description of the breakdown, in its own words: the slab terms with
  a non-zero weight, in slab order, each rendered as \<open><weight>kg*<rate>\<close>.
\<close>

definition spec_slab_terms ::
    "(real \<Rightarrow> js_string) \<Rightarrow> ParcelAmount \<Rightarrow> BillingConfig \<Rightarrow> js_string list" where
  "spec_slab_terms fmt r cfg =
     map (\<lambda>(w, x). component fmt w x)
       (filter (\<lambda>(w, x). w \<noteq> 0)
          [(s1w r, parcelSlab1Rate cfg), (s2w r, parcelSlab2Rate cfg),
           (s3w r, parcelSlab3Rate cfg)])"

section \<open>The expression evaluator (src/utils/billingLogic.ts)\<close>

text \<open>
  \<open>evaluateExpression\<close> removes whitespace (\<open>input.replace(/\s+/g, '')\<close>), tokenizes with
  \<open>expr.match(/(\d+(\.\d+)?|[-+*/()])/g)\<close> and parses the tokens by recursive descent.
  \<open>is_space\<close> is the class \<open>\s\<close> of ECMAScript on UTF-16 code units, \<open>is_digit\<close> the
  class \<open>\d\<close>, \<open>is_operator\<close> the class \<open>[-+*/()]\<close>.
\<close>

definition is_space :: "nat \<Rightarrow> bool" where
  "is_space c = (c \<in> set [9, 10, 11, 12, 13, 32, 160, 5760, 8232, 8233, 8239, 8287, 12288, 65279]
                 \<or> (8192 \<le> c \<and> c \<le> 8202))"

definition is_digit :: "nat \<Rightarrow> bool" where
  "is_digit c = (48 \<le> c \<and> c \<le> 57)"

definition is_operator :: "nat \<Rightarrow> bool" where
  "is_operator c = (c \<in> set (str ''-+*/()''))"

text \<open>
  The match of \<open>\d+(\.\d+)?\<close> at the head of a string that starts with a digit: all the
  leading digits, then a dot and the digits after it when at least one digit follows
  the dot.
\<close>

definition number_prefix :: "js_string \<Rightarrow> js_string" where
  "number_prefix s =
     (let ip = takeWhile is_digit s
      in case dropWhile is_digit s of
           d # f # fs \<Rightarrow>
             if d = 46 \<and> is_digit f then ip @ [46] @ takeWhile is_digit (f # fs) else ip
         | _ \<Rightarrow> ip)"

lemma number_prefix_nonempty: "is_digit c \<Longrightarrow> number_prefix (c # cs) \<noteq> []"
  by (simp add: number_prefix_def Let_def split: list.splits)

text \<open>
  The global match scans from left to right: at a digit it takes the number, at an
  operator character that character, and it skips any other character.
\<close>

function tokenize :: "js_string \<Rightarrow> js_string list" where
  "tokenize [] = []"
| "tokenize (c # cs) =
     (if is_digit c then
        number_prefix (c # cs) # tokenize (drop (length (number_prefix (c # cs))) (c # cs))
      else if is_operator c then [c] # tokenize cs
      else tokenize cs)"
  by pat_completeness auto
termination
proof (relation "measure length")
  fix c cs
  assume "is_digit c"
  then have "number_prefix (c # cs) \<noteq> []" by (rule number_prefix_nonempty)
  then show "(drop (length (number_prefix (c # cs))) (c # cs), c # cs) \<in> measure length"
    by (cases "number_prefix (c # cs)") simp_all
qed simp_all

text \<open>
  \<open>parseFloat\<close> on a token. A token is either a number \<open>\d+(\.\d+)?\<close>, whose value is
  its decimal value, or a single operator character, for which \<open>parseFloat\<close> returns NaN
  (\<open>None\<close>). Strings of other shapes do not reach it.
\<close>

definition nat_of_digits :: "js_string \<Rightarrow> nat" where
  "nat_of_digits ds = foldl (\<lambda>a c. 10 * a + (c - 48)) 0 ds"

definition parseFloat :: "js_string \<Rightarrow> real option" where
  "parseFloat t =
     (case t of
        [] \<Rightarrow> None
      | c # cs \<Rightarrow>
          if is_digit c then
            (let ip = takeWhile is_digit t
             in case dropWhile is_digit t of
                  d # fs \<Rightarrow>
                    if d = 46 then
                      Some (real (nat_of_digits ip)
                            + real (nat_of_digits (takeWhile is_digit fs))
                              / 10 ^ length (takeWhile is_digit fs))
                    else Some (real (nat_of_digits ip))
                | [] \<Rightarrow> Some (real (nat_of_digits ip)))
          else None)"

text \<open>
  The parser. The source keeps the position \<open>pos\<close> in the token array; the model passes
  the tokens from \<open>pos\<close> on and returns the value with the tokens that remain. The two
  \<open>while\<close> loops are \<open>expression_loop\<close> and \<open>term_loop\<close>. At the end of the tokens
  \<open>parseFactor\<close> returns 0 and does not advance; a closing parenthesis is consumed only
  when it is there; a token that is not a number counts as 0.
\<close>

function parseExpression :: "js_string list \<Rightarrow> real \<times> js_string list"
  and expression_loop :: "real \<Rightarrow> js_string list \<Rightarrow> real \<times> js_string list"
  and parseTerm :: "js_string list \<Rightarrow> real \<times> js_string list"
  and term_loop :: "real \<Rightarrow> js_string list \<Rightarrow> real \<times> js_string list"
  and parseFactor :: "js_string list \<Rightarrow> real \<times> js_string list"
where
  "parseExpression ts = (case parseTerm ts of (lhs, r) \<Rightarrow> expression_loop lhs r)"
| "expression_loop lhs [] = (lhs, [])"
| "expression_loop lhs (op # r) =
     (if op = str ''+'' \<or> op = str ''-'' then
        (case parseTerm r of
           (rhs, r') \<Rightarrow> expression_loop (if op = str ''+'' then lhs + rhs else lhs - rhs) r')
      else (lhs, op # r))"
| "parseTerm ts = (case parseFactor ts of (lhs, r) \<Rightarrow> term_loop lhs r)"
| "term_loop lhs [] = (lhs, [])"
| "term_loop lhs (op # r) =
     (if op = str ''*'' \<or> op = str ''/'' then
        (case parseFactor r of
           (rhs, r') \<Rightarrow>
             term_loop (if op = str ''*'' then lhs * rhs
                        else if rhs = 0 then 0
                        else lhs / rhs) r')
      else (lhs, op # r))"
| "parseFactor [] = (0, [])"
| "parseFactor (t # r) =
     (if t = str ''('' then
        (case parseExpression r of
           (val, r') \<Rightarrow>
             (val, case r' of [] \<Rightarrow> [] | c # r'' \<Rightarrow> if c = str '')'' then r'' else r'))
      else (case parseFloat t of None \<Rightarrow> 0 | Some val \<Rightarrow> val, r))"
  by pat_completeness auto

text \<open>No parsing function returns more tokens than it received: the recursion ends.\<close>

lemma parse_length:
  "parseExpression_expression_loop_parseTerm_term_loop_parseFactor_dom (Inl (Inl ts1))
     \<Longrightarrow> length (snd (parseExpression ts1)) \<le> length ts1"
  "parseExpression_expression_loop_parseTerm_term_loop_parseFactor_dom (Inl (Inr (lhs2, ts2)))
     \<Longrightarrow> length (snd (expression_loop lhs2 ts2)) \<le> length ts2"
  "parseExpression_expression_loop_parseTerm_term_loop_parseFactor_dom (Inr (Inl ts3))
     \<Longrightarrow> length (snd (parseTerm ts3)) \<le> length ts3"
  "parseExpression_expression_loop_parseTerm_term_loop_parseFactor_dom (Inr (Inr (Inl (lhs4, ts4))))
     \<Longrightarrow> length (snd (term_loop lhs4 ts4)) \<le> length ts4"
  "parseExpression_expression_loop_parseTerm_term_loop_parseFactor_dom (Inr (Inr (Inr ts5)))
     \<Longrightarrow> length (snd (parseFactor ts5)) \<le> length ts5"
proof (induct rule: parseExpression_expression_loop_parseTerm_term_loop_parseFactor.pinduct)
  case (1 ts)
  obtain x y where xy: "parseTerm ts = (x, y)" by (cases "parseTerm ts")
  have "length y \<le> length ts" using 1(2) xy by simp
  moreover have "length (snd (expression_loop x y)) \<le> length y"
    using 1(3)[of x y] xy by simp
  ultimately show ?case using 1(1) xy by (simp add: parseExpression.psimps)
next
  case (2 lhs)
  then show ?case by (simp add: expression_loop.psimps)
next
  case (3 lhs op r)
  show ?case
  proof (cases "op = str ''+'' \<or> op = str ''-''")
    case True
    obtain x y where xy: "parseTerm r = (x, y)" by (cases "parseTerm r")
    have "length y \<le> length r" using 3(2)[OF True] xy by simp
    moreover have "length (snd (expression_loop (if op = str ''+'' then lhs + x else lhs - x) y))
        \<le> length y"
      using 3(3)[OF True, of x y] xy by simp
    ultimately show ?thesis using 3(1) True xy by (simp add: expression_loop.psimps)
  next
    case False
    then show ?thesis using 3(1) by (simp add: expression_loop.psimps)
  qed
next
  case (4 ts)
  obtain x y where xy: "parseFactor ts = (x, y)" by (cases "parseFactor ts")
  have "length y \<le> length ts" using 4(2) xy by simp
  moreover have "length (snd (term_loop x y)) \<le> length y"
    using 4(3)[of x y] xy by simp
  ultimately show ?case using 4(1) xy by (simp add: parseTerm.psimps)
next
  case (5 lhs)
  then show ?case by (simp add: term_loop.psimps)
next
  case (6 lhs op r)
  show ?case
  proof (cases "op = str ''*'' \<or> op = str ''/''")
    case True
    obtain x y where xy: "parseFactor r = (x, y)" by (cases "parseFactor r")
    have "length y \<le> length r" using 6(2)[OF True] xy by simp
    moreover have "length (snd (term_loop (if op = str ''*'' then lhs * x
                        else if x = 0 then 0 else lhs / x) y)) \<le> length y"
      using 6(3)[OF True, of x y] xy by simp
    ultimately show ?thesis using 6(1) True xy by (simp add: term_loop.psimps)
  next
    case False
    then show ?thesis using 6(1) by (simp add: term_loop.psimps)
  qed
next
  case 7
  then show ?case by (simp add: parseFactor.psimps)
next
  case (8 t r)
  show ?case
  proof (cases "t = str ''(''")
    case True
    obtain x y where xy: "parseExpression r = (x, y)" by (cases "parseExpression r")
    have "length y \<le> length r" using 8(2)[OF True] xy by simp
    then show ?thesis using 8(1) True xy
      by (auto simp add: parseFactor.psimps split: list.splits)
  next
    case False
    then show ?thesis using 8(1) by (simp add: parseFactor.psimps)
  qed
qed

termination parseExpression
proof (relation "measure (\<lambda>x. case x of
          Inl (Inl ts) \<Rightarrow> 5 * length ts + 4
        | Inl (Inr (lhs, ts)) \<Rightarrow> 5 * length ts + 3
        | Inr (Inl ts) \<Rightarrow> 5 * length ts + 2
        | Inr (Inr (Inl (lhs, ts))) \<Rightarrow> 5 * length ts + 1
        | Inr (Inr (Inr ts)) \<Rightarrow> 5 * length ts)", goal_cases)
  case 1
  then show ?case by simp
next
  case (2 ts)
  then show ?case by simp
next
  case (3 ts x y)
  then have e: "parseTerm ts = (x, y)" by simp
  from 3 have "length (snd (parseTerm ts)) \<le> length ts" by (intro parse_length(3)) simp
  with e show ?case by simp
next
  case (4 lhs op r)
  then show ?case by simp
next
  case (5 lhs op r x y)
  then have e: "parseTerm r = (x, y)" by simp
  from 5 have "length (snd (parseTerm r)) \<le> length r" by (intro parse_length(3)) simp
  with e show ?case by simp
next
  case (6 ts)
  then show ?case by simp
next
  case (7 ts x y)
  then have e: "parseFactor ts = (x, y)" by simp
  from 7 have "length (snd (parseFactor ts)) \<le> length ts" by (intro parse_length(5)) simp
  with e show ?case by simp
next
  case (8 lhs op r)
  then show ?case by simp
next
  case (9 lhs op r x y)
  then have e: "parseFactor r = (x, y)" by simp
  from 9 have "length (snd (parseFactor r)) \<le> length r" by (intro parse_length(5)) simp
  with e show ?case by simp
next
  case (10 t r)
  then show ?case by simp
qed

text \<open>
  \<open>isFinite(result)\<close> holds of every real, and no statement of the \<open>try\<close> block throws
  on a string, so the \<open>catch\<close> branch has no counterpart. (Exhaustion of the call stack
  on deeply nested parentheses is outside the model.)
\<close>

definition evaluateExpression :: "js_string \<Rightarrow> real" where
  "evaluateExpression input =
     (let expr = filter (\<lambda>c. \<not> is_space c) input
      in if expr = [] then 0
         else (let tokens = tokenize expr
               in if tokens = [] then 0 else fst (parseExpression tokens)))"

text \<open>
  The grammar of the specification, in its own words, over the token list:
  \<open>Expression = Term (('+'|'-') Term)*\<close>, \<open>Term = Factor (('*'|'/') Factor)*\<close>,
  \<open>Factor = Number | '(' Expression ')'\<close>.
\<close>

definition spec_Number :: "js_string \<Rightarrow> bool" where
  "spec_Number t = (t \<noteq> [] \<and> is_digit (hd t) \<and> number_prefix t = t)"

inductive spec_Expression :: "js_string list \<Rightarrow> bool"
  and spec_Term :: "js_string list \<Rightarrow> bool"
  and spec_Factor :: "js_string list \<Rightarrow> bool"
where
  Number: "spec_Number t \<Longrightarrow> spec_Factor [t]"
| Paren: "spec_Expression e \<Longrightarrow> spec_Factor (str ''('' # e @ [str '')''])"
| Factor: "spec_Factor f \<Longrightarrow> spec_Term f"
| MulDiv: "spec_Term t \<Longrightarrow> op = str ''*'' \<or> op = str ''/'' \<Longrightarrow> spec_Factor f
           \<Longrightarrow> spec_Term (t @ op # f)"
| Term: "spec_Term t \<Longrightarrow> spec_Expression t"
| AddSub: "spec_Expression e \<Longrightarrow> op = str ''+'' \<or> op = str ''-'' \<Longrightarrow> spec_Term t
           \<Longrightarrow> spec_Expression (e @ op # t)"

section \<open>The application state (src/App.tsx)\<close>

text \<open>
  The component \<open>App\<close> keeps its data in React state variables and mirrors some of them
  in \<open>localStorage\<close>. The model is explicit state passing: \<open>AppState\<close> holds the state
  variables the handlers below read or write, and the three \<open>localStorage\<close> entries they
  write (\<open>stored_history\<close>, \<open>stored_folders\<close>, \<open>stored_chunk_session\<close>; \<open>None\<close> is an
  absent key). A handler is a function from the state to the next state.

  A handler reads the state variables of the render that created it. For a handler
  started by the user this is the current state, and the model reads it from its state
  argument. One handler, \<open>processChunkQueue\<close>, starts itself again from a timer; there
  the variables it reads are still those of the first render, and the model passes them
  as a separate argument. Two handlers never run interleaved in the model.

  What a handler takes from its environment is an argument: \<open>uuid env k\<close> is the
  \<open>k\<close>-th result of \<open>crypto.randomUUID()\<close> during one run of the handler, \<open>now env\<close>
  is \<open>Date.now()\<close>, \<open>localeDate env\<close> and \<open>localeTime env\<close> are
  \<open>new Date().toLocaleDateString()\<close> and \<open>toLocaleTimeString()\<close>. The clock is read once
  for one run of a handler.

  Field names are global in Isabelle, so where two interfaces of the source share a field
  name the fields carry the name of their record: \<open>id\<close> is \<open>folder_id\<close>, \<open>manifest_id\<close>,
  \<open>chunk_id\<close> or \<open>session_id\<close>; \<open>rows\<close> and \<open>config\<close> of a manifest are \<open>manifest_rows\<close>
  and \<open>manifest_config\<close> (\<open>rows\<close> and \<open>config\<close> are the state variables); \<open>folderId\<close> of a
  session is \<open>session_folderId\<close>.
\<close>

record Env =
  uuid :: "nat \<Rightarrow> js_string"
  now :: nat
  localeDate :: js_string
  localeTime :: js_string

record Folder =
  folder_id :: js_string
  folder_name :: js_string
  folder_createdAt :: nat

record ManifestHistory =
  manifest_id :: js_string
  manifestNo :: js_string
  manifestDate :: js_string
  manifest_rows :: "BillingRow list"
  manifest_config :: BillingConfig
  totalAmount :: real
  itemCount :: nat
  createdAt :: nat
  folderId :: "js_string option"

datatype StatusKind = Success | Info | Error | Warning

record BulkImportStatus =
  fileName :: js_string
  bulk_status :: StatusKind
  bulk_message :: js_string

datatype View = Dashboard | Billing

type_synonym Image = "js_string \<times> js_string"

record Chunk =
  chunk_id :: js_string
  images :: "Image list"

datatype AiMode = ModeDefault | ModeHybrid | ModeAuto

record ChunkSession =
  session_id :: js_string
  session_folderId :: js_string
  folderName :: js_string
  aiMode :: AiMode
  pendingChunks :: "Chunk list"
  currentChunk :: "Image list"
  totalManifestsCaptured :: nat
  processedCount :: nat
  isProcessing :: bool
  statusLog :: js_string

record AppState =
  history :: "ManifestHistory list"
  recycleBin :: "ManifestHistory list"
  folders :: "Folder list"
  currentFolderId :: "js_string option"
  activeManifestId :: "js_string option"
  rows :: "BillingRow list"
  config :: BillingConfig
  manifestMeta :: "js_string \<times> js_string"
  globalConfig :: BillingConfig
  view :: View
  status :: "(StatusKind \<times> js_string) option"
  importConflict :: "(ManifestHistory \<times> ManifestHistory) option"
  isUploadModalOpen :: bool
  isUploading :: bool
  bulkImportFolderId :: js_string
  bulkImportNewFolderName :: js_string
  bulkImportResults :: "BulkImportStatus list"
  chunkSession :: "ChunkSession option"
  chunkAiMode :: AiMode
  stored_history :: "ManifestHistory list option"
  stored_folders :: "Folder list option"
  stored_chunk_session :: "ChunkSession option"

text \<open>\<open>saveHistory\<close>, \<open>saveFolders\<close> and \<open>saveChunkSession\<close> set the state and the stored copy.\<close>

definition saveHistory :: "ManifestHistory list \<Rightarrow> AppState \<Rightarrow> AppState" where
  "saveHistory newHistory st = st \<lparr> history := newHistory, stored_history := Some newHistory \<rparr>"

definition saveFolders :: "Folder list \<Rightarrow> AppState \<Rightarrow> AppState" where
  "saveFolders newFolders st = st \<lparr> folders := newFolders, stored_folders := Some newFolders \<rparr>"

definition saveChunkSession :: "ChunkSession option \<Rightarrow> AppState \<Rightarrow> AppState" where
  "saveChunkSession newSession st =
     st \<lparr> chunkSession := newSession, stored_chunk_session := newSession \<rparr>"

text \<open>\<open>s || d\<close> on a string that may be absent: an absent or empty string is falsy.\<close>

definition or_else :: "js_string option \<Rightarrow> js_string \<Rightarrow> js_string" where
  "or_else s d = (case s of None \<Rightarrow> d | Some x \<Rightarrow> if x = [] then d else x)"

text \<open>\<open>rows.reduce((sum, r) => sum + r.amount, 0)\<close>, on rows that \<open>calculateRow\<close> returned.\<close>

definition sum_amounts :: "BillingRow list \<Rightarrow> real" where
  "sum_amounts rs = foldl (\<lambda>sum r. sum + (case amount r of None \<Rightarrow> 0 | Some a \<Rightarrow> a)) 0 rs"

section \<open>The import pipeline (src/App.tsx)\<close>

text \<open>
  A file given to an import handler either fails in \<open>JSON.parse\<close> or is an object. Of the
  object the handlers read \<open>manifestNo\<close>, \<open>manifestDate\<close>, \<open>config\<close> (each possibly absent)
  and \<open>rows\<close>, which is an array of rows, a falsy value (absent among them), or another
  value that is no array.
\<close>

datatype RowsField = RowsFalsy | RowsNotArray | RowsArray "BillingRow list"

record ManifestPayload =
  p_manifestNo :: "js_string option"
  p_manifestDate :: "js_string option"
  p_rows :: RowsField
  p_config :: "BillingConfig option"

datatype JsonFile = Unparsable | Parsed ManifestPayload

definition autoSaveManifest ::
    "js_string \<Rightarrow> nat \<Rightarrow> BillingRow list \<Rightarrow> js_string \<times> js_string \<Rightarrow> BillingConfig
       \<Rightarrow> AppState \<Rightarrow> AppState" where
  "autoSaveManifest newId clock newRows meta currentConfig st =
     (let manifestData =
            \<lparr> manifest_id = newId, manifestNo = fst meta, manifestDate = snd meta,
              manifest_rows = newRows, manifest_config = currentConfig,
              totalAmount = sum_amounts newRows, itemCount = length newRows,
              createdAt = clock,
              folderId = (case currentFolderId st of
                            None \<Rightarrow> None | Some f \<Rightarrow> if f = [] then None else Some f) \<rparr>
      in (saveHistory (manifestData # history st) st) \<lparr> activeManifestId := Some newId \<rparr>)"

text \<open>\<open>Date.now().toString().slice(-6)\<close>\<close>

definition last6 :: "js_string \<Rightarrow> js_string" where
  "last6 s = drop (length s - 6) s"

text \<open>
  The candidate that \<open>handleJsonFile\<close> builds from a payload whose \<open>rows\<close> are the
  array \<open>rs\<close>: the rows are recalculated under the configuration of the payload, or
  under the global one when the payload has none.
\<close>

definition json_candidate ::
    "(real \<Rightarrow> js_string) \<Rightarrow> Env \<Rightarrow> ManifestPayload \<Rightarrow> BillingRow list \<Rightarrow> AppState
       \<Rightarrow> ManifestHistory" where
  "json_candidate fmt env content rs st =
     (let meta = (or_else (p_manifestNo content) (str ''MF-'' @ last6 (digits (now env))),
                  or_else (p_manifestDate content) (localeDate env));
          configToUse = (case p_config content of Some c \<Rightarrow> c | None \<Rightarrow> globalConfig st);
          rowsWithCalculations = map (\<lambda>r. calculateRow fmt r configToUse) rs
      in \<lparr> manifest_id = uuid env 0, manifestNo = fst meta, manifestDate = snd meta,
           manifest_rows = rowsWithCalculations, manifest_config = configToUse,
           totalAmount = sum_amounts rowsWithCalculations,
           itemCount = length rowsWithCalculations,
           createdAt = now env, folderId = None \<rparr>)"

text \<open>
  \<open>handleJsonFile\<close> (the body of \<open>reader.onload\<close>). A payload without an array of rows
  throws and is reported by the \<open>catch\<close>. A candidate whose number is in the history
  becomes the pending conflict and the handler returns; otherwise the candidate's rows,
  meta data and configuration become the active session and are saved under a second
  identifier.
\<close>

definition handleJsonFile ::
    "(real \<Rightarrow> js_string) \<Rightarrow> Env \<Rightarrow> JsonFile \<Rightarrow> AppState \<Rightarrow> AppState" where
  "handleJsonFile fmt env file st =
     (let failed = st \<lparr> status := Some (Error, str ''Failed to parse JSON manifest.'') \<rparr>
      in case file of
           Unparsable \<Rightarrow> failed
         | Parsed content \<Rightarrow>
             (case p_rows content of
                RowsFalsy \<Rightarrow> failed
              | RowsNotArray \<Rightarrow> failed
              | RowsArray rs \<Rightarrow>
                  (let newCandidate = json_candidate fmt env content rs st;
                       meta = (manifestNo newCandidate, manifestDate newCandidate)
                   in case find (\<lambda>h. manifestNo h = manifestNo newCandidate) (history st) of
                        Some existing \<Rightarrow>
                          st \<lparr> importConflict := Some (existing, newCandidate) \<rparr>
                      | None \<Rightarrow>
                          (autoSaveManifest (uuid env 1) (now env) (manifest_rows newCandidate)
                             meta (manifest_config newCandidate)
                             (st \<lparr> rows := manifest_rows newCandidate, manifestMeta := meta,
                                   config := manifest_config newCandidate \<rparr>))
                            \<lparr> view := Billing,
                              status := Some (Success,
                                 str ''JSON Manifest imported and saved to history.''),
                              isUploadModalOpen := False \<rparr>)))"

text \<open>
  \<open>resolveConflict\<close>. With no conflict pending it returns at once. Otherwise the action
  decides what is saved, and every action ends with \<open>setImportConflict(null)\<close> and
  \<open>setIsUploadModalOpen(false)\<close>.
\<close>

datatype ConflictAction = keep_both | override | discard

definition activate :: "ManifestHistory \<Rightarrow> StatusKind \<times> js_string \<Rightarrow> AppState \<Rightarrow> AppState" where
  "activate candidateToSave msg st =
     st \<lparr> activeManifestId := Some (manifest_id candidateToSave),
          rows := manifest_rows candidateToSave,
          manifestMeta := (manifestNo candidateToSave, manifestDate candidateToSave),
          config := manifest_config candidateToSave,
          view := Billing,
          status := Some msg \<rparr>"

definition resolveConflict :: "Env \<Rightarrow> ConflictAction \<Rightarrow> AppState \<Rightarrow> AppState" where
  "resolveConflict env action st =
     (case importConflict st of
        None \<Rightarrow> st
      | Some (existing, newCandidate) \<Rightarrow>
          (let st1 =
                 (case action of
                    discard \<Rightarrow> st \<lparr> status := Some (Info, str ''Import cancelled by user.'') \<rparr>
                  | keep_both \<Rightarrow>
                      (let candidateToSave = newCandidate \<lparr> manifest_id := uuid env 0 \<rparr>
                       in activate candidateToSave (Success, str ''Imported as a new copy.'')
                            (saveHistory (candidateToSave # history st) st))
                  | override \<Rightarrow>
                      (let newHistory =
                             filter (\<lambda>h. manifest_id h \<noteq> manifest_id existing) (history st);
                           candidateToSave = newCandidate \<lparr> manifest_id := uuid env 0 \<rparr>
                       in activate candidateToSave
                            (Success, str ''Existing record overwritten.'')
                            (saveHistory (candidateToSave # newHistory) st)))
           in st1 \<lparr> importConflict := None, isUploadModalOpen := False \<rparr>))"

text \<open>
  \<open>handleBulkJsonImport\<close>. \<open>bulk_file\<close> is the body of the \<open>for\<close> loop for the file at
  index \<open>i\<close>, on the accumulators \<open>results\<close> and \<open>newManifests\<close>; \<open>bulk_loop\<close> is the loop.
  The duplicate test comes first and compares with the history and with the manifests
  accepted so far in this batch. A file whose \<open>rows\<close> is truthy and no array fails in
  \<open>json.rows.map\<close> and is reported by the \<open>catch\<close> like a file that does not parse.
  The manifest of the file at index \<open>i\<close> takes \<open>uuid env (Suc i)\<close>; \<open>uuid env 0\<close> is for a
  new folder.
\<close>

definition bulk_result :: "js_string \<Rightarrow> StatusKind \<Rightarrow> string \<Rightarrow> BulkImportStatus" where
  "bulk_result name kind msg = \<lparr> fileName = name, bulk_status = kind, bulk_message = str msg \<rparr>"

definition number_known :: "js_string option \<Rightarrow> ManifestHistory list \<Rightarrow> bool" where
  "number_known no ms =
     (case no of None \<Rightarrow> False | Some n \<Rightarrow> list_ex (\<lambda>h. manifestNo h = n) ms)"

definition bulk_manifest ::
    "(real \<Rightarrow> js_string) \<Rightarrow> Env \<Rightarrow> AppState \<Rightarrow> js_string \<Rightarrow> nat \<Rightarrow> ManifestPayload
       \<Rightarrow> BillingRow list \<Rightarrow> ManifestHistory" where
  "bulk_manifest fmt env st targetId i json rs =
     (let configToUse = (case p_config json of Some c \<Rightarrow> c | None \<Rightarrow> globalConfig st);
          rowsWithCalculations = map (\<lambda>r. calculateRow fmt r configToUse) rs
      in \<lparr> manifest_id = uuid env (Suc i),
           manifestNo = or_else (p_manifestNo json)
                          (str ''IMP-'' @ digits (now env) @ str ''-'' @ digits i),
           manifestDate = or_else (p_manifestDate json) (localeDate env),
           manifest_rows = rowsWithCalculations,
           manifest_config = configToUse,
           totalAmount = sum_amounts rowsWithCalculations,
           itemCount = length rowsWithCalculations,
           createdAt = now env,
           folderId = Some targetId \<rparr>)"

definition bulk_file ::
    "(real \<Rightarrow> js_string) \<Rightarrow> Env \<Rightarrow> AppState \<Rightarrow> js_string \<Rightarrow> nat \<Rightarrow> js_string \<Rightarrow> JsonFile
       \<Rightarrow> BulkImportStatus list \<times> ManifestHistory list
       \<Rightarrow> BulkImportStatus list \<times> ManifestHistory list" where
  "bulk_file fmt env st targetId i name file acc =
     (case acc of (results, newManifests) \<Rightarrow>
       (case file of
          Unparsable \<Rightarrow> (results @ [bulk_result name Error ''JSON Parse Error''], newManifests)
        | Parsed json \<Rightarrow>
            if number_known (p_manifestNo json) (history st)
               \<or> number_known (p_manifestNo json) newManifests
            then (results @ [bulk_result name Warning ''Duplicate skipped''], newManifests)
            else
              (case p_rows json of
                 RowsFalsy \<Rightarrow>
                   (results @ [bulk_result name Error ''Invalid structure''], newManifests)
               | RowsNotArray \<Rightarrow>
                   (results @ [bulk_result name Error ''JSON Parse Error''], newManifests)
               | RowsArray rs \<Rightarrow>
                   (results @ [bulk_result name Success ''Imported''],
                    newManifests @ [bulk_manifest fmt env st targetId i json rs]))))"

fun bulk_loop ::
    "(real \<Rightarrow> js_string) \<Rightarrow> Env \<Rightarrow> AppState \<Rightarrow> js_string \<Rightarrow> nat \<Rightarrow> (js_string \<times> JsonFile) list
       \<Rightarrow> BulkImportStatus list \<times> ManifestHistory list
       \<Rightarrow> BulkImportStatus list \<times> ManifestHistory list" where
  "bulk_loop fmt env st targetId i [] acc = acc"
| "bulk_loop fmt env st targetId i (f # files) acc =
     bulk_loop fmt env st targetId (Suc i) files
       (bulk_file fmt env st targetId i (fst f) (snd f) acc)"

definition executeBatchImport :: "ManifestHistory list \<Rightarrow> AppState \<Rightarrow> AppState" where
  "executeBatchImport manifests st =
     st \<lparr> history := manifests @ history st,
          stored_history := Some (manifests @ history st) \<rparr>"

text \<open>
  The handler returns without any effect (after an \<open>alert\<close>) for more than 30 files, and
  for a new folder whose name is empty after \<open>trim()\<close>.
\<close>

definition bulk_refused :: "(js_string \<times> JsonFile) list \<Rightarrow> AppState \<Rightarrow> bool" where
  "bulk_refused files st =
     (length files > 30
      \<or> (bulkImportFolderId st = str ''new'' \<and> list_all is_space (bulkImportNewFolderName st)))"

definition bulk_target :: "Env \<Rightarrow> AppState \<Rightarrow> js_string" where
  "bulk_target env st =
     (if bulkImportFolderId st = str ''new'' then uuid env 0 else bulkImportFolderId st)"

definition handleBulkJsonImport ::
    "(real \<Rightarrow> js_string) \<Rightarrow> Env \<Rightarrow> (js_string \<times> JsonFile) list \<Rightarrow> AppState \<Rightarrow> AppState" where
  "handleBulkJsonImport fmt env files st =
     (if bulk_refused files st then st
      else
        (let targetId = bulk_target env st;
             st1 = (if bulkImportFolderId st = str ''new''
                    then saveFolders
                           (folders st @ [\<lparr> folder_id = targetId,
                                            folder_name = bulkImportNewFolderName st,
                                            folder_createdAt = now env \<rparr>]) st
                    else st);
             st2 = st1 \<lparr> isUploading := True \<rparr>;
             batch = bulk_loop fmt env st targetId 0 files ([], [])
         in (executeBatchImport (snd batch) st2)
              \<lparr> bulkImportResults := fst batch, isUploading := False \<rparr>))"

section \<open>The chunk session (src/App.tsx)\<close>

definition startChunkSession :: "Env \<Rightarrow> AppState \<Rightarrow> AppState" where
  "startChunkSession env st =
     (let name = str ''Session_'' @ map (\<lambda>c. if c = 47 then 45 else c) (localeDate env)
                 @ str ''_'' @ map (\<lambda>c. if c = 58 then 45 else c) (localeTime env);
          newFolderId = uuid env 0;
          updatedFolders = folders st @ [\<lparr> folder_id = newFolderId, folder_name = name,
                                           folder_createdAt = now env \<rparr>];
          newSession =
            \<lparr> session_id = uuid env 1, session_folderId = newFolderId, folderName = name,
              aiMode = chunkAiMode st, pendingChunks = [], currentChunk = [],
              totalManifestsCaptured = 0, processedCount = 0, isProcessing = False,
              statusLog = str ''Ready to capture.'' \<rparr>
      in saveChunkSession (Some newSession)
           (st \<lparr> folders := updatedFolders, stored_folders := Some updatedFolders \<rparr>))"

text \<open>
  \<open>finishCurrentChunk(overrideChunk?)\<close>: the chunk to save is \<open>overrideChunk\<close> when one
  is given (an array, even an empty one, is truthy), else the current chunk.
\<close>

definition finishCurrentChunk :: "Env \<Rightarrow> Image list option \<Rightarrow> AppState \<Rightarrow> AppState" where
  "finishCurrentChunk env overrideChunk st =
     (case chunkSession st of
        None \<Rightarrow> st
      | Some cs \<Rightarrow>
          (let chunkToSave = (case overrideChunk of Some c \<Rightarrow> c | None \<Rightarrow> currentChunk cs)
           in if chunkToSave = [] then st
              else saveChunkSession
                     (Some (cs \<lparr> pendingChunks :=
                                   pendingChunks cs @ [\<lparr> chunk_id = uuid env 0,
                                                         images = chunkToSave \<rparr>],
                                 currentChunk := [],
                                 totalManifestsCaptured := totalManifestsCaptured cs + 1,
                                 statusLog := str ''Manifest captured. Ready for next.'' \<rparr>))
                     st))"

text \<open>
  \<open>handleChunkCapture\<close>: \<open>file\<close> is the image read from \<open>e.target.files[0]\<close>, \<open>None\<close>
  when no file was chosen.
\<close>

definition handleChunkCapture :: "Env \<Rightarrow> Image option \<Rightarrow> AppState \<Rightarrow> AppState" where
  "handleChunkCapture env file st =
     (case chunkSession st of
        None \<Rightarrow> st
      | Some cs \<Rightarrow>
          (case file of
             None \<Rightarrow> st
           | Some newImage \<Rightarrow>
               (let updatedChunk = currentChunk cs @ [newImage]
                in if length updatedChunk \<ge> 5 then finishCurrentChunk env (Some updatedChunk) st
                   else saveChunkSession
                          (Some (cs \<lparr> currentChunk := updatedChunk,
                                      statusLog := str ''Page '' @ digits (length updatedChunk)
                                                   @ str '' captured.'' \<rparr>))
                          st)))"

text \<open>The capture and close transitions of a session, and a sequence of them.\<close>

datatype ChunkEvent = Capture Env "Image option" | Close Env

fun chunk_step :: "ChunkEvent \<Rightarrow> AppState \<Rightarrow> AppState" where
  "chunk_step (Capture env file) st = handleChunkCapture env file st"
| "chunk_step (Close env) st = finishCurrentChunk env None st"

fun chunk_steps :: "ChunkEvent list \<Rightarrow> AppState \<Rightarrow> AppState" where
  "chunk_steps [] st = st"
| "chunk_steps (e # es) st = chunk_steps es (chunk_step e st)"

section \<open>The recognition service and the queue drain\<close>

text \<open>
  \<open>callModel\<close> either throws or returns a response; of a response the program reads the
  text and parses it as JSON (\<open>ResponseText None\<close> is a text that does not parse). The
  service is a parameter: \<open>service n tier\<close> is what the model of that tier does during the
  \<open>n\<close>-th call of \<open>parseBillingDocument\<close>.
\<close>

datatype Tier = FAST | ACCURATE | FALLBACK

record RecognizedItem =
  item_slNo :: "real option"
  item_serialNo :: "js_string option"
  item_description :: "js_string option"
  item_type :: "js_string option"
  item_weight :: "real option"

record RecognitionResult =
  result_manifestNo :: "js_string option"
  result_manifestDate :: "js_string option"
  result_items :: "RecognizedItem list option"

datatype ModelReply = ModelError | ResponseText "RecognitionResult option"

text \<open>
  \<open>parseBillingDocument\<close> (src/unnamed/part_000): the tiers in the order of the mode, the
  next one when a call throws; \<open>None\<close> when the last tier throws or the text does not
  parse, which is an exception for the caller.
\<close>

definition first_response :: "ModelReply \<Rightarrow> ModelReply \<Rightarrow> ModelReply" where
  "first_response r fallback = (case r of ModelError \<Rightarrow> fallback | ResponseText t \<Rightarrow> r)"

definition parseBillingDocument :: "(Tier \<Rightarrow> ModelReply) \<Rightarrow> bool \<Rightarrow> RecognitionResult option" where
  "parseBillingDocument callModel useHybridMode =
     (let response =
            (if useHybridMode
             then first_response (callModel ACCURATE)
                    (first_response (callModel FAST) (callModel FALLBACK))
             else first_response (callModel FAST) (callModel FALLBACK))
      in case response of ModelError \<Rightarrow> None | ResponseText t \<Rightarrow> t)"

text \<open>
  The world of the drain: the application state, the number of calls of
  \<open>parseBillingDocument\<close> so far, and the images each of these calls was given.
\<close>

record World =
  app :: AppState
  recognitions :: nat
  sent :: "Image list list"

definition recognize ::
    "(nat \<Rightarrow> Tier \<Rightarrow> ModelReply) \<Rightarrow> Image list \<Rightarrow> bool \<Rightarrow> World
       \<Rightarrow> RecognitionResult option \<times> World" where
  "recognize service inputs useHybridMode w =
     (parseBillingDocument (service (recognitions w)) useHybridMode,
      w \<lparr> recognitions := Suc (recognitions w), sent := sent w @ [inputs] \<rparr>)"

text \<open>\<open>saveChunkSession(prev => prev ? f(prev) : null)\<close>: an update of the current session.\<close>

definition update_session :: "(ChunkSession \<Rightarrow> ChunkSession) \<Rightarrow> World \<Rightarrow> World" where
  "update_session f w =
     w \<lparr> app := saveChunkSession (map_option f (chunkSession (app w))) (app w) \<rparr>"

definition log_processing :: "string \<Rightarrow> ChunkSession \<Rightarrow> ChunkSession" where
  "log_processing usedMode prev =
     prev \<lparr> statusLog := str ''Processing Manifest '' @ digits (processedCount prev + 1)
                          @ str ''... ('' @ str usedMode @ str '')'' \<rparr>"

text \<open>The row built from the recognized item at position \<open>index\<close>.\<close>

definition item_row :: "Env \<Rightarrow> nat \<Rightarrow> RecognizedItem \<Rightarrow> BillingRow" where
  "item_row env index item =
     \<lparr> row_id = uuid env index,
       slNo = (case item_slNo item of
                 None \<Rightarrow> real (index + 1) | Some n \<Rightarrow> if n = 0 then real (index + 1) else n),
       serialNo = or_else (item_serialNo item) (str ''AWB-'' @ digits (1000 + index)),
       description = or_else (item_description item) (str ''Item''),
       row_type = (if item_type item = Some (str ''Document'') then DOCUMENT else PARCEL),
       weight = (case item_weight item of None \<Rightarrow> 0 | Some x \<Rightarrow> x),
       rate = None, isManualRate = Some False, amount = None, row_breakdown = None \<rparr>"

text \<open>
  One run of \<open>processChunkQueue\<close>. \<open>render\<close> holds the state variables of the render
  that created the handler: the function reads \<open>chunkSession\<close> and \<open>globalConfig\<close> from
  it. The updates \<open>saveChunkSession(prev => ...)\<close> and \<open>setHistory(prev => ...)\<close> act on
  the current state, which is in the world \<open>w\<close>. The result says whether the run ended in
  \<open>setTimeout(() => processChunkQueue(), 500)\<close>.
\<close>

definition processChunkQueue ::
    "(real \<Rightarrow> js_string) \<Rightarrow> (nat \<Rightarrow> Tier \<Rightarrow> ModelReply) \<Rightarrow> Env \<Rightarrow> AppState \<Rightarrow> World
       \<Rightarrow> bool \<times> World" where
  "processChunkQueue fmt service env render w =
     (case chunkSession render of
        None \<Rightarrow> (False, w)
      | Some cs \<Rightarrow>
          if pendingChunks cs = [] then (False, w)
          else
            (let w1 = update_session
                        (\<lambda>prev. prev \<lparr> isProcessing := True,
                                        statusLog := str ''Starting batch processing...'' \<rparr>) w;
                 chunkToProcess = hd (pendingChunks cs);
                 useHybrid = (aiMode cs = ModeHybrid);
                 useAuto = (aiMode cs = ModeAuto);
                 attempt =
                   (if useAuto then
                      (let first = recognize service (images chunkToProcess) False
                                     (update_session (log_processing ''Default Mode'') w1)
                       in case fst first of
                            Some r \<Rightarrow> first
                          | None \<Rightarrow>
                              recognize service (images chunkToProcess) True
                                (update_session
                                   (\<lambda>prev. prev \<lparr> statusLog :=
                                      str ''Default failed. Retrying with Hybrid Mode...'' \<rparr>)
                                   (snd first)))
                    else recognize service (images chunkToProcess) useHybrid
                           (update_session
                              (log_processing (if useHybrid then ''Hybrid'' else ''Default''))
                              w1))
             in case fst attempt of
                  None \<Rightarrow>
                    (False,
                     update_session
                       (\<lambda>prev. prev \<lparr> isProcessing := False,
                                       statusLog :=
                                         str ''Processing paused due to error. Resume when ready.'' \<rparr>)
                       (snd attempt))
                | Some result \<Rightarrow>
                    (let items = (case result_items result of None \<Rightarrow> [] | Some xs \<Rightarrow> xs);
                         calculatedRows =
                           map (\<lambda>(index, item).
                                  calculateRow fmt (item_row env index item) (globalConfig render))
                             (enumerate 0 items);
                         newManifest =
                           \<lparr> manifest_id = uuid env (length items),
                             manifestNo = or_else (result_manifestNo result)
                                            (str ''AUTO-'' @ digits (now env)),
                             manifestDate = or_else (result_manifestDate result) (localeDate env),
                             manifest_rows = calculatedRows,
                             manifest_config = globalConfig render,
                             totalAmount = sum_amounts calculatedRows,
                             itemCount = length calculatedRows,
                             createdAt = now env,
                             folderId = Some (session_folderId cs) \<rparr>;
                         w3 = (snd attempt)
                                \<lparr> app := (app (snd attempt))
                                     \<lparr> history := newManifest # history (app (snd attempt)),
                                       stored_history :=
                                         Some (newManifest # history (app (snd attempt))) \<rparr> \<rparr>;
                         w4 = update_session
                                (\<lambda>prev. prev \<lparr> pendingChunks := drop 1 (pendingChunks prev),
                                                processedCount := processedCount prev + 1,
                                                statusLog := str ''Manifest '' @ manifestNo newManifest
                                                  @ str '' processed successfully.'' \<rparr>) w3;
                         remainingChunksLength = int (length (pendingChunks cs)) - 1
                     in if remainingChunksLength > 0 then (True, w4)
                        else (False,
                              update_session
                                (\<lambda>prev. prev \<lparr> isProcessing := False,
                                                statusLog :=
                                                  str ''All captured manifests processed.'' \<rparr>)
                                w4))))"

text \<open>
  The drain started by the button: the handler of the current render runs, and as long
  as a run ends in the timer the same handler, with the same \<open>render\<close>, runs again. The
  \<open>n\<close>-th run takes its environment from \<open>envs n\<close>. The chain need not end; the result
  is \<open>None\<close> when it does not.
\<close>

partial_function (option) drain ::
    "(real \<Rightarrow> js_string) \<Rightarrow> (nat \<Rightarrow> Tier \<Rightarrow> ModelReply) \<Rightarrow> (nat \<Rightarrow> Env) \<Rightarrow> AppState \<Rightarrow> nat
       \<Rightarrow> World \<Rightarrow> World option" where
  "drain fmt service envs render n w =
     (case processChunkQueue fmt service (envs n) render w of
        (again, w') \<Rightarrow>
          if again then drain fmt service envs render (Suc n) w' else Some w')"

definition start_processing ::
    "(real \<Rightarrow> js_string) \<Rightarrow> (nat \<Rightarrow> Tier \<Rightarrow> ModelReply) \<Rightarrow> (nat \<Rightarrow> Env) \<Rightarrow> World
       \<Rightarrow> World option" where
  "start_processing fmt service envs w = drain fmt service envs (app w) 0 w"

section \<open>Values for the examples\<close>

text \<open>
  The state of the application when it starts with an empty \<open>localStorage\<close> (the initial
  values of the \<open>useState\<close> calls), an environment for the \<open>k\<close>-th handler run of an
  example, whose identifiers differ from run to run and from draw to draw, and two images.
\<close>

definition initial_state :: AppState where
  "initial_state =
     \<lparr> history = [], recycleBin = [], folders = [], currentFolderId = None,
       activeManifestId = None, rows = [], config = example_config,
       manifestMeta = ([], []), globalConfig = example_config, view = Dashboard,
       status = None, importConflict = None, isUploadModalOpen = False,
       isUploading = False, bulkImportFolderId = str ''new'',
       bulkImportNewFolderName = [], bulkImportResults = [], chunkSession = None,
       chunkAiMode = ModeDefault, stored_history = None, stored_folders = None,
       stored_chunk_session = None \<rparr>"

definition example_env :: "nat \<Rightarrow> Env" where
  "example_env k =
     \<lparr> uuid = (\<lambda>i. str ''id-'' @ digits k @ str ''-'' @ digits i),
       now = 1700000000000 + k,
       localeDate = str ''1/2/2026'',
       localeTime = str ''10:00:00 AM'' \<rparr>"

definition page :: "nat \<Rightarrow> Image" where
  "page k = (str ''page'' @ digits k, str ''image/jpeg'')"

text \<open>The number of images in the current chunk and of chunks in the queue; 0 without a session.\<close>

definition current_length :: "AppState \<Rightarrow> nat" where
  "current_length st =
     (case chunkSession st of None \<Rightarrow> 0 | Some cs \<Rightarrow> length (currentChunk cs))"

definition pending_length :: "AppState \<Rightarrow> nat" where
  "pending_length st =
     (case chunkSession st of None \<Rightarrow> 0 | Some cs \<Rightarrow> length (pendingChunks cs))"

text \<open>
  A batch of two files with the same manifest number, of which the first has no rows,
  and the state in which it is imported: the initial one with a name entered for the new
  folder.
\<close>

definition payload_of :: "js_string \<Rightarrow> ManifestPayload" where
  "payload_of no =
     \<lparr> p_manifestNo = Some no, p_manifestDate = None, p_rows = RowsArray [],
       p_config = None \<rparr>"

definition number_only_payload :: ManifestPayload where
  "number_only_payload =
     \<lparr> p_manifestNo = Some (str ''MF-1''), p_manifestDate = None, p_rows = RowsFalsy,
       p_config = None \<rparr>"

definition same_number_batch :: "(js_string \<times> JsonFile) list" where
  "same_number_batch =
     [(str ''a.json'', Parsed number_only_payload), (str ''b.json'', Parsed (payload_of (str ''MF-1'')))]"

definition bulk_ready_state :: AppState where
  "bulk_ready_state = initial_state \<lparr> bulkImportNewFolderName := str ''Jan'' \<rparr>"

text \<open>
  A repository that holds a manifest numbered \<open>MF-1\<close> and has one numbered \<open>MF-9\<close> in
  the recycle bin, and a batch of three files: the first repeats \<open>MF-1\<close>, the other two
  are both numbered \<open>MF-9\<close>.
\<close>

definition stored_manifest :: "js_string \<Rightarrow> js_string \<Rightarrow> ManifestHistory" where
  "stored_manifest no ident =
     \<lparr> manifest_id = ident, manifestNo = no, manifestDate = str ''1/1/2026'',
       manifest_rows = [], manifest_config = example_config, totalAmount = 0,
       itemCount = 0, createdAt = 0, folderId = None \<rparr>"

definition repo_state :: AppState where
  "repo_state =
     bulk_ready_state \<lparr> history := [stored_manifest (str ''MF-1'') (str ''old-1'')],
                        recycleBin := [stored_manifest (str ''MF-9'') (str ''old-9'')] \<rparr>"

definition three_file_batch :: "(js_string \<times> JsonFile) list" where
  "three_file_batch =
     [(str ''a.json'', Parsed (payload_of (str ''MF-1''))),
      (str ''b.json'', Parsed (payload_of (str ''MF-9''))),
      (str ''c.json'', Parsed (payload_of (str ''MF-9'')))]"

text \<open>
  A session with three closed chunks of one page each, and a recognition service whose
  first two calls succeed (with an empty list of items) and whose later calls fail on
  every tier.
\<close>

definition three_chunks :: AppState where
  "three_chunks =
     chunk_steps
       [Capture (example_env 1) (Some (page 1)), Close (example_env 2),
        Capture (example_env 3) (Some (page 2)), Close (example_env 4),
        Capture (example_env 5) (Some (page 3)), Close (example_env 6)]
       (startChunkSession (example_env 0) initial_state)"

definition two_then_fail :: "nat \<Rightarrow> Tier \<Rightarrow> ModelReply" where
  "two_then_fail n tier =
     (if n < 2
      then ResponseText (Some \<lparr> result_manifestNo = None, result_manifestDate = None,
                                 result_items = Some [] \<rparr>)
      else ModelError)"

definition drained :: "World option" where
  "drained =
     start_processing fmt_none two_then_fail (\<lambda>n. example_env (10 + n))
       \<lparr> app = three_chunks, recognitions = 0, sent = [] \<rparr>"

text \<open>
  Two interactive imports of payloads numbered \<open>MF-1\<close>, one after the other, into the
  initial state.
\<close>

definition first_import :: AppState where
  "first_import =
     handleJsonFile fmt_none (example_env 1) (Parsed (payload_of (str ''MF-1''))) initial_state"

definition second_import :: AppState where
  "second_import =
     handleJsonFile fmt_none (example_env 2) (Parsed (payload_of (str ''MF-1''))) first_import"

section \<open>Properties of the rate engine\<close>

lemma roundedWeight_nonneg: "0 \<le> roundedWeight w"
  by (simp add: roundedWeight_def)

lemma roundedWeight_ceiling: "roundedWeight w = of_int \<lceil>max w 0\<rceil>"
  by (simp add: roundedWeight_def max_def)

lemma roundedWeight_mono: "w1 \<le> w2 \<Longrightarrow> roundedWeight w1 \<le> roundedWeight w2"
  by (auto simp add: roundedWeight_def ceiling_mono intro: order_trans)

lemma slabs_of_rounded:
  "s1w (calculateParcelAmount fmt w cfg) = min (roundedWeight w) 10"
  "s2w (calculateParcelAmount fmt w cfg) = min (roundedWeight w - min (roundedWeight w) 10) 100"
  "s3w (calculateParcelAmount fmt w cfg) =
     roundedWeight w - min (roundedWeight w) 10
       - min (roundedWeight w - min (roundedWeight w) 10) 100"
  by (auto simp add: calculateParcelAmount_def Let_def min_def)

lemma total_of_slabs:
  "total (calculateParcelAmount fmt w cfg) =
     s1w (calculateParcelAmount fmt w cfg) * parcelSlab1Rate cfg
   + s2w (calculateParcelAmount fmt w cfg) * parcelSlab2Rate cfg
   + s3w (calculateParcelAmount fmt w cfg) * parcelSlab3Rate cfg"
  using roundedWeight_nonneg[of w]
  by (auto simp add: calculateParcelAmount_def Let_def min_def)

text \<open>
  Claim C1. For every weight \<open>w\<close> and configuration \<open>cfg\<close>, the slab weights returned by
  \<open>calculateParcelAmount\<close> add up to \<open>ceil(max(w, 0))\<close>, which is zero when \<open>w\<close> is zero or
  negative; the total is the sum of the slab weights times their rates; slab 1 takes
  \<open>min(billable, 10)\<close>, slab 2 takes \<open>min(remaining, 100)\<close> and slab 3 all that still
  remains.
\<close>

theorem calculateParcelAmount_slabs:
  fixes w :: real
  defines "b \<equiv> of_int \<lceil>max w 0\<rceil>"
  shows "s1w (calculateParcelAmount fmt w cfg) + s2w (calculateParcelAmount fmt w cfg)
           + s3w (calculateParcelAmount fmt w cfg) = b
       \<and> b = (if w \<le> 0 then 0 else of_int \<lceil>w\<rceil>)
       \<and> total (calculateParcelAmount fmt w cfg) =
           s1w (calculateParcelAmount fmt w cfg) * parcelSlab1Rate cfg
         + s2w (calculateParcelAmount fmt w cfg) * parcelSlab2Rate cfg
         + s3w (calculateParcelAmount fmt w cfg) * parcelSlab3Rate cfg
       \<and> s1w (calculateParcelAmount fmt w cfg) = min b 10
       \<and> s2w (calculateParcelAmount fmt w cfg)
           = min (b - s1w (calculateParcelAmount fmt w cfg)) 100
       \<and> s3w (calculateParcelAmount fmt w cfg) =
           b - s1w (calculateParcelAmount fmt w cfg) - s2w (calculateParcelAmount fmt w cfg)"
  unfolding b_def
  using total_of_slabs[of fmt w cfg]
  by (simp add: slabs_of_rounded roundedWeight_ceiling max_def)

theorem calculateParcelAmount_slabs_witness:
  "s1w (calculateParcelAmount fmt_none 177 example_config) = 10
 \<and> s2w (calculateParcelAmount fmt_none 177 example_config) = 100
 \<and> s3w (calculateParcelAmount fmt_none 177 example_config) = 67
 \<and> total (calculateParcelAmount fmt_none 177 example_config) = 297"
  using calculateParcelAmount_slabs[of fmt_none 177 example_config]
  by (simp add: example_config_def)

lemma total_closed_form:
  "total (calculateParcelAmount fmt w cfg) =
     min (roundedWeight w) 10 * parcelSlab1Rate cfg
   + min (max (roundedWeight w - 10) 0) 100 * parcelSlab2Rate cfg
   + max (roundedWeight w - 110) 0 * parcelSlab3Rate cfg"
  using roundedWeight_nonneg[of w]
  by (simp add: total_of_slabs slabs_of_rounded min_def max_def)

text \<open>
  Claim C9. For a configuration whose four rates are non-negative, the total of
  \<open>calculateParcelAmount\<close> is monotonic non-decreasing in the weight.
\<close>

theorem calculateParcelAmount_mono:
  assumes "0 \<le> parcelSlab1Rate cfg" "0 \<le> parcelSlab2Rate cfg"
          "0 \<le> parcelSlab3Rate cfg" "0 \<le> documentRate cfg"
      and "w1 \<le> w2"
  shows "total (calculateParcelAmount fmt w1 cfg) \<le> total (calculateParcelAmount fmt w2 cfg)"
proof -
  have le: "roundedWeight w1 \<le> roundedWeight w2"
    using assms(5) by (rule roundedWeight_mono)
  have a: "min (roundedWeight w1) 10 * parcelSlab1Rate cfg
         \<le> min (roundedWeight w2) 10 * parcelSlab1Rate cfg"
    using le assms(1) by (intro mult_right_mono) (auto simp: min_def)
  have b: "min (max (roundedWeight w1 - 10) 0) 100 * parcelSlab2Rate cfg
         \<le> min (max (roundedWeight w2 - 10) 0) 100 * parcelSlab2Rate cfg"
    using le assms(2) by (intro mult_right_mono) (auto simp: min_def max_def)
  have c: "max (roundedWeight w1 - 110) 0 * parcelSlab3Rate cfg
         \<le> max (roundedWeight w2 - 110) 0 * parcelSlab3Rate cfg"
    using le assms(3) by (intro mult_right_mono) (auto simp: max_def)
  show ?thesis
    unfolding total_closed_form using a b c by linarith
qed

theorem calculateParcelAmount_mono_witness:
  "total (calculateParcelAmount fmt_none 5.14 example_config) = 18
 \<and> total (calculateParcelAmount fmt_none 177 example_config) = 297
 \<and> total (calculateParcelAmount fmt_none 5.14 example_config)
     \<le> total (calculateParcelAmount fmt_none 177 example_config)"
proof -
  have "total (calculateParcelAmount fmt_none 5.14 example_config)
      \<le> total (calculateParcelAmount fmt_none 177 example_config)"
    by (rule calculateParcelAmount_mono) (simp_all add: example_config_def)
  moreover have "total (calculateParcelAmount fmt_none 5.14 example_config) = 18"
    by (simp add: total_closed_form roundedWeight_def example_config_def)
  moreover have "total (calculateParcelAmount fmt_none 177 example_config) = 297"
    by (simp add: total_closed_form roundedWeight_def example_config_def)
  ultimately show ?thesis by simp
qed

lemma component_nonempty: "component fmt w x \<noteq> []"
  by (simp add: component_def str_def)

lemma breakdown_terms:
  "breakdown (calculateParcelAmount fmt w cfg) =
     (if spec_slab_terms fmt (calculateParcelAmount fmt w cfg) cfg = []
      then rupee @ str ''0.00''
      else join (str '' + '') (spec_slab_terms fmt (calculateParcelAmount fmt w cfg) cfg))"
  using roundedWeight_nonneg[of w]
  by (simp add: calculateParcelAmount_def Let_def spec_slab_terms_def min_def
        component_nonempty)

lemma roundedWeight_zero_iff: "roundedWeight w = 0 \<longleftrightarrow> w \<le> 0"
proof (cases "0 < w")
  case True
  then have "\<lceil>w\<rceil> \<noteq> 0" by (metis less_irrefl zero_less_ceiling)
  with True show ?thesis by (simp add: roundedWeight_def)
next
  case False
  then show ?thesis by (simp add: roundedWeight_def)
qed

lemma no_terms_iff: "spec_slab_terms fmt (calculateParcelAmount fmt w cfg) cfg = [] \<longleftrightarrow> w \<le> 0"
  using roundedWeight_zero_iff[of w] roundedWeight_nonneg[of w]
  by (auto simp add: spec_slab_terms_def slabs_of_rounded min_def split: if_splits)

lemma example_177:
  "total (calculateParcelAmount fmt 177 example_config) = 297"
  "breakdown (calculateParcelAmount fmt 177 example_config) = str ''10kg*3 + 100kg*2 + 67kg*1''"
  by (simp_all add: calculateParcelAmount_def example_config_def roundedWeight_def
        component_def NumberToString_def int_string_def digits.simps Let_def str_def rupee_def)

text \<open>
  Claim C6, as the specification states it, fails: for a weight of zero the total is
  zero and the breakdown is the rupee sign followed by \<open>0.00\<close>, which
  the function substitutes for an empty join; it is not empty.
\<close>

theorem breakdown_counterexample:
  "total (calculateParcelAmount fmt_none 0 example_config) = 0
 \<and> breakdown (calculateParcelAmount fmt_none 0 example_config) = rupee @ str ''0.00''
 \<and> breakdown (calculateParcelAmount fmt_none 0 example_config) \<noteq> []"
  by (simp add: calculateParcelAmount_def Let_def roundedWeight_def rupee_def)

text \<open>
  Claim C6, amended. For every weight \<open>w\<close> and configuration \<open>cfg\<close>, the breakdown of
  \<open>calculateParcelAmount\<close> is the ordered concatenation of the slab terms of non-zero
  weight, each rendered as \<open><weight>kg*<rate>\<close>, joined by \<open>" + "\<close>; when there is no such
  term, which is exactly when the weight is zero or negative, it is the rupee sign
  followed by \<open>0.00\<close>. For the configuration \<open>{s1:3, s2:2, s3:1}\<close> and weight 177 the total
  is 297 and the breakdown is \<open>10kg*3 + 100kg*2 + 67kg*1\<close>.
\<close>

theorem calculateParcelAmount_breakdown:
  "breakdown (calculateParcelAmount fmt w cfg) =
     (if spec_slab_terms fmt (calculateParcelAmount fmt w cfg) cfg = []
      then rupee @ str ''0.00''
      else join (str '' + '') (spec_slab_terms fmt (calculateParcelAmount fmt w cfg) cfg))
 \<and> (spec_slab_terms fmt (calculateParcelAmount fmt w cfg) cfg = []) = (w \<le> 0)
 \<and> total (calculateParcelAmount fmt 177 example_config) = 297
 \<and> breakdown (calculateParcelAmount fmt 177 example_config)
     = str ''10kg*3 + 100kg*2 + 67kg*1''"
  using breakdown_terms[of fmt w cfg] no_terms_iff[of fmt w cfg] example_177[of fmt]
  by simp

theorem calculateParcelAmount_breakdown_witness:
  "breakdown (calculateParcelAmount fmt_none 5.14 example_config) = str ''6kg*3''"
  using calculateParcelAmount_breakdown[of fmt_none "5.14" example_config]
  by (simp add: spec_slab_terms_def slabs_of_rounded roundedWeight_def example_config_def
        component_def NumberToString_def int_string_def digits.simps str_def)

text \<open>
  Claim C8. \<open>calculateRow\<close> is idempotent: deriving an already derived row again, under
  the same configuration, changes nothing, the back-computed rate of a non-manual
  parcel row included.
\<close>

theorem calculateRow_idempotent:
  "calculateRow fmt (calculateRow fmt row cfg) cfg = calculateRow fmt row cfg"
  by (simp add: calculateRow_def Let_def rate_or_0_def flag_or_false_def)

lemma example_row_calculated:
  "calculateRow fmt_none example_row example_config
     = example_row \<lparr> rate := Some 3, isManualRate := Some False, amount := Some 18,
                      row_breakdown := Some (str ''6kg*3'') \<rparr>"
  by (simp add: calculateRow_def calculateParcelAmount_def example_row_def example_config_def
        roundedWeight_def rate_or_0_def flag_or_false_def component_def NumberToString_def
        int_string_def digits.simps Let_def str_def rupee_def)

theorem calculateRow_idempotent_witness:
  "calculateRow fmt_none
     (example_row \<lparr> rate := Some 3, isManualRate := Some False, amount := Some 18,
                     row_breakdown := Some (str ''6kg*3'') \<rparr>) example_config
     = example_row \<lparr> rate := Some 3, isManualRate := Some False, amount := Some 18,
                      row_breakdown := Some (str ''6kg*3'') \<rparr>"
  using calculateRow_idempotent[of fmt_none example_row example_config]
  unfolding example_row_calculated .

text \<open>
  Claim C10. \<open>calculateRow\<close> changes no field other than rate, isManualRate, amount and
  breakdown: id, slNo, serialNo, description, type and weight are those of the input.
\<close>

theorem calculateRow_frame:
  "row_id (calculateRow fmt row cfg) = row_id row
 \<and> slNo (calculateRow fmt row cfg) = slNo row
 \<and> serialNo (calculateRow fmt row cfg) = serialNo row
 \<and> description (calculateRow fmt row cfg) = description row
 \<and> row_type (calculateRow fmt row cfg) = row_type row
 \<and> weight (calculateRow fmt row cfg) = weight row"
  by (simp add: calculateRow_def Let_def)

theorem calculateRow_frame_witness:
  "row_id (calculateRow fmt_none example_row example_config) = str ''r1''
 \<and> slNo (calculateRow fmt_none example_row example_config) = 1
 \<and> serialNo (calculateRow fmt_none example_row example_config) = str ''AWB-1000''
 \<and> description (calculateRow fmt_none example_row example_config) = str ''Item''
 \<and> row_type (calculateRow fmt_none example_row example_config) = PARCEL
 \<and> weight (calculateRow fmt_none example_row example_config) = 5.14"
  using calculateRow_frame[of fmt_none example_row example_config]
  by (simp add: example_row_def)

section \<open>Properties of the expression evaluator\<close>

lemmas eval_defs = evaluateExpression_def str_def is_space_def is_digit_def is_operator_def
  number_prefix_def parseFloat_def nat_of_digits_def





lemma wellformed_example: "spec_Expression (tokenize (str ''2*(3+4)''))"
proof -
  have n: "spec_Number (str ''2'')" "spec_Number (str ''3'')" "spec_Number (str ''4'')"
    by (simp_all add: eval_defs spec_Number_def)
  have "spec_Expression ([str ''3''] @ str ''+'' # [str ''4''])"
    by (intro AddSub Term Factor Number n) simp
  then have "spec_Factor (str ''('' # ([str ''3''] @ str ''+'' # [str ''4'']) @ [str '')''])"
    by (rule Paren)
  then have "spec_Term ([str ''2''] @ str ''*'' # (str ''('' # ([str ''3''] @ str ''+'' # [str ''4'']) @ [str '')'']))"
    by (intro MulDiv Factor Number n) simp_all
  then have "spec_Expression ([str ''2''] @ str ''*'' # (str ''('' # ([str ''3''] @ str ''+'' # [str ''4'']) @ [str '')'']))"
    by (rule Term)
  moreover have "tokenize (str ''2*(3+4)'')
      = [str ''2''] @ str ''*'' # (str ''('' # ([str ''3''] @ str ''+'' # [str ''4'']) @ [str '')''])"
    by (simp add: eval_defs)
  ultimately show ?thesis by simp
qed













section \<open>Properties of the chunk session\<close>

lemma capture_appends:
  assumes "chunkSession st = Some cs" "length (currentChunk cs) < 4"
  shows "handleChunkCapture env (Some img) st =
           saveChunkSession
             (Some (cs \<lparr> currentChunk := currentChunk cs @ [img],
                         statusLog := str ''Page '' @ digits (length (currentChunk cs) + 1)
                                      @ str '' captured.'' \<rparr>)) st"
  using assms by (simp add: handleChunkCapture_def Let_def)

lemma capture_closes:
  assumes "chunkSession st = Some cs" "4 \<le> length (currentChunk cs)"
  shows "handleChunkCapture env (Some img) st =
           saveChunkSession
             (Some (cs \<lparr> pendingChunks :=
                           pendingChunks cs @ [\<lparr> chunk_id = uuid env 0,
                                                 images = currentChunk cs @ [img] \<rparr>],
                         currentChunk := [],
                         totalManifestsCaptured := totalManifestsCaptured cs + 1,
                         statusLog := str ''Manifest captured. Ready for next.'' \<rparr>)) st"
  using assms by (simp add: handleChunkCapture_def finishCurrentChunk_def Let_def)

lemma close_empty:
  "current_length st = 0 \<Longrightarrow> finishCurrentChunk env None st = st"
  by (simp add: finishCurrentChunk_def current_length_def Let_def split: option.splits)

lemma step_bounded: "current_length (chunk_step e st) \<le> max 4 (current_length st)"
proof (cases e)
  case (Capture env img)
  then show ?thesis
    by (auto simp add: handleChunkCapture_def finishCurrentChunk_def saveChunkSession_def
          current_length_def Let_def split: option.splits)
next
  case (Close env)
  then show ?thesis
    by (auto simp add: finishCurrentChunk_def saveChunkSession_def current_length_def Let_def
          split: option.splits)
qed

lemma steps_bounded: "current_length (chunk_steps es st) \<le> max 4 (current_length st)"
proof (induction es arbitrary: st)
  case Nil
  then show ?case by simp
next
  case (Cons e es)
  have "current_length (chunk_steps es (chunk_step e st))
          \<le> max 4 (current_length (chunk_step e st))"
    by (rule Cons.IH)
  also have "\<dots> \<le> max 4 (current_length st)"
    using step_bounded[of e st] by simp
  finally show ?case by simp
qed

lemma start_fresh:
  "current_length (startChunkSession env st) = 0"
  "pending_length (startChunkSession env st) = 0"
  by (simp_all add: startChunkSession_def saveChunkSession_def current_length_def
        pending_length_def Let_def)

lemma five_captures:
  "chunkSession (chunk_steps [Capture e1 (Some i1), Capture e2 (Some i2), Capture e3 (Some i3),
                    Capture e4 (Some i4), Capture e5 (Some i5)] (startChunkSession env st))
   = Some ((the (chunkSession (startChunkSession env st)))
            \<lparr> pendingChunks := [\<lparr> chunk_id = uuid e5 0, images = [i1, i2, i3, i4, i5] \<rparr>],
              currentChunk := [],
              totalManifestsCaptured := 1,
              statusLog := str ''Manifest captured. Ready for next.'' \<rparr>)"
  by (simp add: startChunkSession_def handleChunkCapture_def finishCurrentChunk_def
        saveChunkSession_def Let_def)

text \<open>
  Claim C7. In an active session, capturing a page appends one image to the current
  chunk as long as fewer than five images result; the capture that makes five closes the
  chunk: the five images go to the end of the queue under a newly drawn identifier and
  the current chunk is cleared. So after any sequence of capture and close transitions
  the current chunk holds at most 5 images (at most 4 from a fresh session on), five
  captures into a fresh session leave one chunk in the queue and an empty current chunk,
  and closing an empty current chunk changes nothing.
\<close>

theorem chunk_capture_auto_close:
  "(chunkSession st = Some cs \<and> length (currentChunk cs) < 4 \<longrightarrow>
      handleChunkCapture env (Some img) st =
        saveChunkSession
          (Some (cs \<lparr> currentChunk := currentChunk cs @ [img],
                      statusLog := str ''Page '' @ digits (length (currentChunk cs) + 1)
                                   @ str '' captured.'' \<rparr>)) st)
 \<and> (chunkSession st = Some cs \<and> 4 \<le> length (currentChunk cs) \<longrightarrow>
      handleChunkCapture env (Some img) st =
        saveChunkSession
          (Some (cs \<lparr> pendingChunks :=
                        pendingChunks cs @ [\<lparr> chunk_id = uuid env 0,
                                              images = currentChunk cs @ [img] \<rparr>],
                      currentChunk := [],
                      totalManifestsCaptured := totalManifestsCaptured cs + 1,
                      statusLog := str ''Manifest captured. Ready for next.'' \<rparr>)) st)
 \<and> (current_length st \<le> 5 \<longrightarrow> current_length (chunk_steps es st) \<le> 5)
 \<and> current_length (chunk_steps es (startChunkSession env0 st0)) \<le> 4
 \<and> pending_length
       (chunk_steps [Capture e1 (Some i1), Capture e2 (Some i2), Capture e3 (Some i3),
                     Capture e4 (Some i4), Capture e5 (Some i5)]
          (startChunkSession env0 st0)) = 1
 \<and> current_length
       (chunk_steps [Capture e1 (Some i1), Capture e2 (Some i2), Capture e3 (Some i3),
                     Capture e4 (Some i4), Capture e5 (Some i5)]
          (startChunkSession env0 st0)) = 0
 \<and> (current_length st = 0 \<longrightarrow> finishCurrentChunk env None st = st)"
proof -
  have bound: "current_length st \<le> 5 \<longrightarrow> current_length (chunk_steps es st) \<le> 5"
    using steps_bounded[of es st] by auto
  have fresh: "current_length (chunk_steps es (startChunkSession env0 st0)) \<le> 4"
    using steps_bounded[of es "startChunkSession env0 st0"] by (simp add: start_fresh)
  have five:
    "pending_length
       (chunk_steps [Capture e1 (Some i1), Capture e2 (Some i2), Capture e3 (Some i3),
                     Capture e4 (Some i4), Capture e5 (Some i5)]
          (startChunkSession env0 st0)) = 1"
    "current_length
       (chunk_steps [Capture e1 (Some i1), Capture e2 (Some i2), Capture e3 (Some i3),
                     Capture e4 (Some i4), Capture e5 (Some i5)]
          (startChunkSession env0 st0)) = 0"
    unfolding pending_length_def current_length_def five_captures by simp_all
  show ?thesis
    using capture_appends[of st cs env img] capture_closes[of st cs env img]
      bound fresh five close_empty[of st env]
    by blast
qed

theorem chunk_capture_auto_close_witness:
  "current_length (handleChunkCapture (example_env 1) (Some (page 1))
      (startChunkSession (example_env 0) initial_state)) = 1
 \<and> pending_length (chunk_steps (map (\<lambda>k. Capture (example_env k) (Some (page k))) [1, 2, 3, 4])
      (startChunkSession (example_env 0) initial_state)) = 0
 \<and> pending_length (handleChunkCapture (example_env 5) (Some (page 5))
      (chunk_steps (map (\<lambda>k. Capture (example_env k) (Some (page k))) [1, 2, 3, 4])
         (startChunkSession (example_env 0) initial_state))) = 1
 \<and> current_length (chunk_steps (map (\<lambda>k. Capture (example_env k) (Some (page k))) [1, 2, 3, 4])
      (startChunkSession (example_env 0) initial_state)) \<le> 5
 \<and> finishCurrentChunk (example_env 1) None (startChunkSession (example_env 0) initial_state)
     = startChunkSession (example_env 0) initial_state"
proof -
  define s0 where "s0 = startChunkSession (example_env 0) initial_state"
  define four where "four = map (\<lambda>k. Capture (example_env k) (Some (page k))) [1, 2, 3, 4]"
  define s4 where "s4 = chunk_steps four s0"
  obtain cs0 where c0: "chunkSession s0 = Some cs0" "currentChunk cs0 = []"
    by (simp add: s0_def startChunkSession_def saveChunkSession_def Let_def)
  obtain cs4 where c4: "chunkSession s4 = Some cs4" "length (currentChunk cs4) = 4"
      "pendingChunks cs4 = []"
    by (simp add: s4_def four_def s0_def startChunkSession_def handleChunkCapture_def
          saveChunkSession_def Let_def)
  note at0 = chunk_capture_auto_close[where st = s0 and cs = cs0
      and env = "example_env 1" and img = "page 1" and es = four]
  note at4 = chunk_capture_auto_close[where st = s4 and cs = cs4
      and env = "example_env 5" and img = "page 5"]
  have a: "current_length (handleChunkCapture (example_env 1) (Some (page 1)) s0) = 1"
    apply (subst at0[THEN conjunct1, rule_format])
     apply (simp add: c0)
    apply (simp add: saveChunkSession_def current_length_def c0)
    done
  have b: "current_length s4 \<le> 5"
    unfolding s4_def
    by (rule at0[THEN conjunct2, THEN conjunct2, THEN conjunct1, rule_format])
       (simp add: current_length_def c0)
  have c: "finishCurrentChunk (example_env 1) None s0 = s0"
    by (rule at0[THEN conjunct2, THEN conjunct2, THEN conjunct2, THEN conjunct2,
                 THEN conjunct2, THEN conjunct2, rule_format])
       (simp add: current_length_def c0)
  have d: "pending_length (handleChunkCapture (example_env 5) (Some (page 5)) s4) = 1"
    apply (subst at4[THEN conjunct2, THEN conjunct1, rule_format])
     apply (simp add: c4)
    apply (simp add: saveChunkSession_def pending_length_def c4)
    done
  have e: "pending_length s4 = 0"
    by (simp add: pending_length_def c4)
  show ?thesis
    using a b c d e unfolding s4_def four_def s0_def by simp
qed

section \<open>Properties of the import pipeline\<close>

lemma find_known:
  "list_ex P xs \<Longrightarrow> \<exists>x. find P xs = Some x \<and> x \<in> set xs \<and> P x"
  by (induction xs) auto

lemma find_unknown: "\<not> list_ex P xs \<Longrightarrow> find P xs = None"
  by (induction xs) auto

lemma json_conflict:
  assumes "p_rows content = RowsArray rs"
      and "find (\<lambda>h. manifestNo h = manifestNo (json_candidate fmt env content rs st)) (history st)
             = Some existing"
  shows "handleJsonFile fmt env (Parsed content) st
           = st \<lparr> importConflict := Some (existing, json_candidate fmt env content rs st) \<rparr>"
  using assms by (simp add: handleJsonFile_def Let_def)

lemma json_import:
  assumes "p_rows content = RowsArray rs"
      and "find (\<lambda>h. manifestNo h = manifestNo (json_candidate fmt env content rs st)) (history st)
             = None"
  shows "history (handleJsonFile fmt env (Parsed content) st)
           = (json_candidate fmt env content rs st)
               \<lparr> manifest_id := uuid env 1,
                 folderId := (case currentFolderId st of
                                None \<Rightarrow> None | Some f \<Rightarrow> if f = [] then None else Some f) \<rparr>
             # history st"
    and "stored_history (handleJsonFile fmt env (Parsed content) st)
           = Some (history (handleJsonFile fmt env (Parsed content) st))"
    and "importConflict (handleJsonFile fmt env (Parsed content) st) = importConflict st"
    and "activeManifestId (handleJsonFile fmt env (Parsed content) st) = Some (uuid env 1)"
    and "globalConfig (handleJsonFile fmt env (Parsed content) st) = globalConfig st"
  using assms
  by (simp_all add: handleJsonFile_def Let_def autoSaveManifest_def saveHistory_def
        json_candidate_def)

lemma json_candidate_number:
  "p_manifestNo content = Some n \<Longrightarrow> n \<noteq> []
     \<Longrightarrow> manifestNo (json_candidate fmt env content rs st) = n"
  by (simp add: json_candidate_def Let_def or_else_def)

lemma json_candidate_rows:
  "manifest_rows (json_candidate fmt env content rs st)
     = map (\<lambda>r. calculateRow fmt r
              (case p_config content of Some c \<Rightarrow> c | None \<Rightarrow> globalConfig st)) rs"
  by (simp add: json_candidate_def Let_def)

lemma resolve_keep_both:
  assumes "importConflict st = Some (existing, candidate)"
  shows "history (resolveConflict env keep_both st)
           = candidate \<lparr> manifest_id := uuid env 0 \<rparr> # history st"
    and "stored_history (resolveConflict env keep_both st)
           = Some (candidate \<lparr> manifest_id := uuid env 0 \<rparr> # history st)"
  using assms by (simp_all add: resolveConflict_def Let_def activate_def saveHistory_def)

lemma resolve_override:
  assumes "importConflict st = Some (existing, candidate)"
  shows "history (resolveConflict env override st)
           = candidate \<lparr> manifest_id := uuid env 0 \<rparr>
             # filter (\<lambda>h. manifest_id h \<noteq> manifest_id existing) (history st)"
    and "stored_history (resolveConflict env override st)
           = Some (candidate \<lparr> manifest_id := uuid env 0 \<rparr>
                   # filter (\<lambda>h. manifest_id h \<noteq> manifest_id existing) (history st))"
  using assms by (simp_all add: resolveConflict_def Let_def activate_def saveHistory_def)

lemma resolve_discard:
  assumes "importConflict st = Some (existing, candidate)"
  shows "resolveConflict env discard st
           = st \<lparr> status := Some (Info, str ''Import cancelled by user.''),
                  importConflict := None, isUploadModalOpen := False \<rparr>"
  using assms by (simp add: resolveConflict_def Let_def)

lemma resolve_ends_conflict:
  "importConflict (resolveConflict env action st) = None"
  by (cases action)
     (simp_all add: resolveConflict_def Let_def activate_def saveHistory_def split: option.splits)

lemma resolve_activates:
  assumes "importConflict st = Some (existing, candidate)" "action \<noteq> discard"
  shows "activeManifestId (resolveConflict env action st) = Some (uuid env 0)
       \<and> rows (resolveConflict env action st) = manifest_rows candidate
       \<and> manifestMeta (resolveConflict env action st)
           = (manifestNo candidate, manifestDate candidate)
       \<and> config (resolveConflict env action st) = manifest_config candidate
       \<and> view (resolveConflict env action st) = Billing"
  using assms
  by (cases action) (simp_all add: resolveConflict_def Let_def activate_def saveHistory_def)

text \<open>
  Two interactive imports of payloads with the same manifest number \<open>n\<close> into an empty
  repository: the first is saved, the second becomes the pending conflict.
\<close>

lemma two_imports:
  fixes fmt ea eb pa pb sti rsa rsb
  defines "st1 \<equiv> handleJsonFile fmt ea (Parsed pa) sti"
  defines "st2 \<equiv> handleJsonFile fmt eb (Parsed pb) st1"
  assumes "history sti = []" "p_rows pa = RowsArray rsa" "p_rows pb = RowsArray rsb"
      and "p_manifestNo pa = Some n" "p_manifestNo pb = Some n" "n \<noteq> []"
  shows "\<exists>m. history st1 = [m] \<and> manifest_id m = uuid ea 1 \<and> manifestNo m = n"
    and "importConflict st2 = Some (hd (history st1), json_candidate fmt eb pb rsb st1)"
    and "history st2 = history st1"
    and "stored_history st2 = stored_history st1"
proof -
  have none: "find (\<lambda>h. manifestNo h = manifestNo (json_candidate fmt ea pa rsa sti)) (history sti)
                = None"
    using assms(3) by simp
  define m where "m = (json_candidate fmt ea pa rsa sti)
      \<lparr> manifest_id := uuid ea 1,
        folderId := (case currentFolderId sti of
                       None \<Rightarrow> None | Some f \<Rightarrow> if f = [] then None else Some f) \<rparr>"
  have h1: "history st1 = [m]"
    unfolding st1_def m_def using json_import(1)[OF assms(4) none] assms(3) by simp
  have m_no: "manifestNo m = n" "manifest_id m = uuid ea 1"
    unfolding m_def using json_candidate_number[OF assms(6,8)] by simp_all
  show "\<exists>m. history st1 = [m] \<and> manifest_id m = uuid ea 1 \<and> manifestNo m = n"
    using h1 m_no by blast
  have some: "find (\<lambda>h. manifestNo h = manifestNo (json_candidate fmt eb pb rsb st1)) (history st1)
                = Some m"
    using h1 m_no json_candidate_number[OF assms(7,8)] by simp
  have st2: "st2 = st1 \<lparr> importConflict := Some (m, json_candidate fmt eb pb rsb st1) \<rparr>"
    unfolding st2_def by (rule json_conflict[OF assms(5) some])
  show "importConflict st2 = Some (hd (history st1), json_candidate fmt eb pb rsb st1)"
    using st2 h1 by simp
  show "history st2 = history st1" using st2 by simp
  show "stored_history st2 = stored_history st1" using st2 by simp
qed

text \<open>
  Claim C4. A pending import conflict is resolved by one of three actions. \<open>keep_both\<close>
  saves the candidate under a newly drawn identifier in front of the unchanged history;
  \<open>override\<close> removes the existing entry and saves the candidate under a newly drawn
  identifier; \<open>discard\<close> changes nothing but the status line. Every action clears the
  pending conflict, and the two that save make the saved manifest the active session.
  For two imports of the same manifest number into an empty repository: the second
  becomes the one pending conflict and nothing is saved for it; \<open>keep_both\<close> then leaves
  two manifests with that number, under the identifier drawn at the resolution and the
  one drawn when the first was saved; \<open>override\<close> leaves exactly one, with the rows of
  the second payload.
\<close>

theorem resolveConflict_outcomes:
  fixes fmt ea eb pa pb sti rsa rsb
  defines "st1 \<equiv> handleJsonFile fmt ea (Parsed pa) sti"
  defines "st2 \<equiv> handleJsonFile fmt eb (Parsed pb) st1"
  defines "second \<equiv> json_candidate fmt eb pb rsb st1"
  shows
  "(importConflict st = Some (existing, candidate) \<longrightarrow>
      history (resolveConflict env keep_both st)
        = candidate \<lparr> manifest_id := uuid env 0 \<rparr> # history st
    \<and> stored_history (resolveConflict env keep_both st)
        = Some (candidate \<lparr> manifest_id := uuid env 0 \<rparr> # history st)
    \<and> history (resolveConflict env override st)
        = candidate \<lparr> manifest_id := uuid env 0 \<rparr>
          # filter (\<lambda>h. manifest_id h \<noteq> manifest_id existing) (history st)
    \<and> stored_history (resolveConflict env override st)
        = Some (candidate \<lparr> manifest_id := uuid env 0 \<rparr>
                # filter (\<lambda>h. manifest_id h \<noteq> manifest_id existing) (history st))
    \<and> resolveConflict env discard st
        = st \<lparr> status := Some (Info, str ''Import cancelled by user.''),
               importConflict := None, isUploadModalOpen := False \<rparr>
    \<and> (action \<noteq> discard \<longrightarrow>
          activeManifestId (resolveConflict env action st) = Some (uuid env 0)
        \<and> rows (resolveConflict env action st) = manifest_rows candidate
        \<and> manifestMeta (resolveConflict env action st)
            = (manifestNo candidate, manifestDate candidate)
        \<and> config (resolveConflict env action st) = manifest_config candidate
        \<and> view (resolveConflict env action st) = Billing))
 \<and> importConflict (resolveConflict env action st) = None
 \<and> (history sti = [] \<and> p_rows pa = RowsArray rsa \<and> p_rows pb = RowsArray rsb
      \<and> p_manifestNo pa = Some n \<and> p_manifestNo pb = Some n \<and> n \<noteq> [] \<longrightarrow>
      importConflict st2 = Some (hd (history st1), second)
    \<and> history st2 = history st1
    \<and> stored_history st2 = stored_history st1
    \<and> length (history st1) = 1
    \<and> map manifest_id (history (resolveConflict ec keep_both st2)) = [uuid ec 0, uuid ea 1]
    \<and> map manifestNo (history (resolveConflict ec keep_both st2)) = [n, n]
    \<and> history (resolveConflict ec override st2) = [second \<lparr> manifest_id := uuid ec 0 \<rparr>]
    \<and> manifestNo second = n
    \<and> manifest_rows second
        = map (\<lambda>r. calculateRow fmt r
                 (case p_config pb of Some c \<Rightarrow> c | None \<Rightarrow> globalConfig sti)) rsb
    \<and> history (resolveConflict ec discard st2) = history st1)"
proof -
  have general:
    "importConflict st = Some (existing, candidate) \<longrightarrow>
      history (resolveConflict env keep_both st)
        = candidate \<lparr> manifest_id := uuid env 0 \<rparr> # history st
    \<and> stored_history (resolveConflict env keep_both st)
        = Some (candidate \<lparr> manifest_id := uuid env 0 \<rparr> # history st)
    \<and> history (resolveConflict env override st)
        = candidate \<lparr> manifest_id := uuid env 0 \<rparr>
          # filter (\<lambda>h. manifest_id h \<noteq> manifest_id existing) (history st)
    \<and> stored_history (resolveConflict env override st)
        = Some (candidate \<lparr> manifest_id := uuid env 0 \<rparr>
                # filter (\<lambda>h. manifest_id h \<noteq> manifest_id existing) (history st))
    \<and> resolveConflict env discard st
        = st \<lparr> status := Some (Info, str ''Import cancelled by user.''),
               importConflict := None, isUploadModalOpen := False \<rparr>
    \<and> (action \<noteq> discard \<longrightarrow>
          activeManifestId (resolveConflict env action st) = Some (uuid env 0)
        \<and> rows (resolveConflict env action st) = manifest_rows candidate
        \<and> manifestMeta (resolveConflict env action st)
            = (manifestNo candidate, manifestDate candidate)
        \<and> config (resolveConflict env action st) = manifest_config candidate
        \<and> view (resolveConflict env action st) = Billing)"
    using resolve_keep_both[of st existing candidate env]
      resolve_override[of st existing candidate env]
      resolve_discard[of st existing candidate env]
      resolve_activates[of st existing candidate action env]
    by blast
  have scenario:
    "importConflict st2 = Some (hd (history st1), second)
    \<and> history st2 = history st1
    \<and> stored_history st2 = stored_history st1
    \<and> length (history st1) = 1
    \<and> map manifest_id (history (resolveConflict ec keep_both st2)) = [uuid ec 0, uuid ea 1]
    \<and> map manifestNo (history (resolveConflict ec keep_both st2)) = [n, n]
    \<and> history (resolveConflict ec override st2) = [second \<lparr> manifest_id := uuid ec 0 \<rparr>]
    \<and> manifestNo second = n
    \<and> manifest_rows second
        = map (\<lambda>r. calculateRow fmt r
                 (case p_config pb of Some c \<Rightarrow> c | None \<Rightarrow> globalConfig sti)) rsb
    \<and> history (resolveConflict ec discard st2) = history st1"
    if a: "history sti = []" "p_rows pa = RowsArray rsa" "p_rows pb = RowsArray rsb"
          "p_manifestNo pa = Some n" "p_manifestNo pb = Some n" "n \<noteq> []"
  proof -
    have two:
      "\<exists>m. history st1 = [m] \<and> manifest_id m = uuid ea 1 \<and> manifestNo m = n"
      "importConflict st2 = Some (hd (history st1), second)"
      "history st2 = history st1"
      "stored_history st2 = stored_history st1"
      unfolding st1_def st2_def second_def
      by (rule two_imports[OF a])+
    obtain m where m: "history st1 = [m]" "manifest_id m = uuid ea 1" "manifestNo m = n"
      using two(1) by blast
    have conflict: "importConflict st2 = Some (m, second)"
      using two(2) m(1) by simp
    have h2: "history st2 = [m]" using two(3) m(1) by simp
    have no: "manifestNo second = n"
      unfolding second_def by (rule json_candidate_number[OF a(5,6)])
    have none: "find (\<lambda>h. manifestNo h = manifestNo (json_candidate fmt ea pa rsa sti))
                  (history sti) = None"
      using a(1) by simp
    have cfg: "globalConfig st1 = globalConfig sti"
      unfolding st1_def by (rule json_import(5)[OF a(2) none])
    have rws: "manifest_rows second
        = map (\<lambda>r. calculateRow fmt r
                 (case p_config pb of Some c \<Rightarrow> c | None \<Rightarrow> globalConfig sti)) rsb"
      unfolding second_def json_candidate_rows cfg by (rule refl)
    have keep: "history (resolveConflict ec keep_both st2)
                  = [second \<lparr> manifest_id := uuid ec 0 \<rparr>, m]"
      using resolve_keep_both(1)[OF conflict, of ec] h2 by simp
    have over: "history (resolveConflict ec override st2) = [second \<lparr> manifest_id := uuid ec 0 \<rparr>]"
      using resolve_override(1)[OF conflict, of ec] h2 by simp
    have disc: "history (resolveConflict ec discard st2) = history st1"
      using resolve_discard[OF conflict, of ec] two(3) by simp
    show ?thesis
      using two(2,3,4) m keep over disc no rws by simp
  qed
  show ?thesis
    using general resolve_ends_conflict[of env action st] scenario by blast
qed

theorem resolveConflict_outcomes_witness:
  "importConflict second_import \<noteq> None
 \<and> map manifest_id (history (resolveConflict (example_env 3) keep_both second_import))
     = [uuid (example_env 3) 0, uuid (example_env 1) 1]
 \<and> length (history (resolveConflict (example_env 3) override second_import)) = 1
 \<and> history (resolveConflict (example_env 3) discard second_import) = history first_import
 \<and> activeManifestId (resolveConflict (example_env 3) override second_import)
     = Some (uuid (example_env 3) 0)
 \<and> importConflict (resolveConflict (example_env 3) override second_import) = None"
proof -
  have hyp: "history initial_state = []
      \<and> p_rows (payload_of (str ''MF-1'')) = RowsArray []
      \<and> p_rows (payload_of (str ''MF-1'')) = RowsArray []
      \<and> p_manifestNo (payload_of (str ''MF-1'')) = Some (str ''MF-1'')
      \<and> p_manifestNo (payload_of (str ''MF-1'')) = Some (str ''MF-1'')
      \<and> str ''MF-1'' \<noteq> []"
    by (simp add: initial_state_def payload_of_def str_def)
  note at = resolveConflict_outcomes[where fmt = fmt_none and sti = initial_state
      and pa = "payload_of (str ''MF-1'')" and pb = "payload_of (str ''MF-1'')"
      and rsa = "[]" and rsb = "[]" and n = "str ''MF-1''"
      and ea = "example_env 1" and eb = "example_env 2" and ec = "example_env 3"
      and env = "example_env 3" and action = override and st = second_import
      and existing = "hd (history first_import)"
      and candidate = "json_candidate fmt_none (example_env 2) (payload_of (str ''MF-1'')) []
                         first_import",
      folded first_import_def second_import_def]
  note scenario = at[THEN conjunct2, THEN conjunct2, rule_format, OF hyp]
  have conflict: "importConflict second_import
      = Some (hd (history first_import),
              json_candidate fmt_none (example_env 2) (payload_of (str ''MF-1'')) [] first_import)"
    by (rule scenario[THEN conjunct1])
  note general = at[THEN conjunct1, rule_format, OF conflict]
  have active: "activeManifestId (resolveConflict (example_env 3) override second_import)
      = Some (uuid (example_env 3) 0)"
    using general by simp
  have cleared: "importConflict (resolveConflict (example_env 3) override second_import) = None"
    by (rule at[THEN conjunct2, THEN conjunct1])
  show ?thesis
    using conflict scenario active cleared by simp
qed

lemma bulk_loop_append:
  "bulk_loop fmt env st t i (xs @ ys) acc
     = bulk_loop fmt env st t (i + length xs) ys (bulk_loop fmt env st t i xs acc)"
  by (induction xs arbitrary: i acc) simp_all

lemma bulk_file_extends:
  "\<exists>r ms. bulk_file fmt env st t i name f acc = (fst acc @ [r], snd acc @ ms)"
  by (cases acc; cases f)
     (auto simp add: bulk_file_def Let_def split: RowsField.splits)

lemma bulk_loop_extends:
  "\<exists>rs ms. bulk_loop fmt env st t i fs acc = (fst acc @ rs, snd acc @ ms)
           \<and> length rs = length fs"
proof (induction fs arbitrary: i acc)
  case Nil
  then show ?case by (cases acc) simp
next
  case (Cons f fs)
  obtain r ms where step:
    "bulk_file fmt env st t i (fst f) (snd f) acc = (fst acc @ [r], snd acc @ ms)"
    using bulk_file_extends by blast
  obtain rs ms' where rest:
    "bulk_loop fmt env st t (Suc i) fs (fst acc @ [r], snd acc @ ms)
       = ((fst acc @ [r]) @ rs, (snd acc @ ms) @ ms')" "length rs = length fs"
    using Cons.IH[of "Suc i" "(fst acc @ [r], snd acc @ ms)"] by auto
  show ?case
    using step rest by (intro exI[of _ "r # rs"] exI[of _ "ms @ ms'"]) simp
qed

lemma bulk_results_length:
  "length (fst (bulk_loop fmt env st t 0 fs ([], []))) = length fs"
  using bulk_loop_extends[of fmt env st t 0 fs "([], [])"] by auto

lemma bulk_duplicate_step:
  assumes "number_known (p_manifestNo json) (history st)
           \<or> number_known (p_manifestNo json) (snd acc)"
  shows "bulk_file fmt env st t i name (Parsed json) acc
           = (fst acc @ [bulk_result name Warning ''Duplicate skipped''], snd acc)"
  using assms by (cases acc) (auto simp add: bulk_file_def)

lemma bulk_accept_step:
  assumes "\<not> number_known (p_manifestNo json) (history st)"
          "\<not> number_known (p_manifestNo json) (snd acc)"
          "p_rows json = RowsArray rs"
  shows "bulk_file fmt env st t i name (Parsed json) acc
           = (fst acc @ [bulk_result name Success ''Imported''],
              snd acc @ [bulk_manifest fmt env st t i json rs])"
  using assms by (cases acc) (auto simp add: bulk_file_def)

text \<open>
  The file at position \<open>length pre\<close> of a batch: the loop reaches it with the accumulators
  of the files before it, and its report is the entry at its position in the results.
\<close>

lemma bulk_at_position:
  fixes pre post fmt env st t
  defines "earlier \<equiv> bulk_loop fmt env st t 0 pre ([], [])"
  shows "bulk_loop fmt env st t 0 (pre @ (name, f) # post) ([], [])
           = bulk_loop fmt env st t (Suc (length pre)) post
               (bulk_file fmt env st t (length pre) name f earlier)"
    and "fst (bulk_loop fmt env st t 0 (pre @ (name, f) # post) ([], [])) ! length pre
           = last (fst (bulk_file fmt env st t (length pre) name f earlier))"
proof -
  show a: "bulk_loop fmt env st t 0 (pre @ (name, f) # post) ([], [])
           = bulk_loop fmt env st t (Suc (length pre)) post
               (bulk_file fmt env st t (length pre) name f earlier)"
    by (simp add: bulk_loop_append earlier_def)
  obtain r ms where step:
    "bulk_file fmt env st t (length pre) name f earlier = (fst earlier @ [r], snd earlier @ ms)"
    using bulk_file_extends by blast
  obtain rs ms' where rest:
    "bulk_loop fmt env st t (Suc (length pre)) post (fst earlier @ [r], snd earlier @ ms)
       = ((fst earlier @ [r]) @ rs, (snd earlier @ ms) @ ms')"
    using bulk_loop_extends[of fmt env st t "Suc (length pre)" post
            "(fst earlier @ [r], snd earlier @ ms)"] by auto
  have len: "length (fst earlier) = length pre"
    unfolding earlier_def by (rule bulk_results_length)
  show "fst (bulk_loop fmt env st t 0 (pre @ (name, f) # post) ([], [])) ! length pre
           = last (fst (bulk_file fmt env st t (length pre) name f earlier))"
    using len by (simp add: a step rest nth_append)
qed

lemma bulk_handler:
  assumes "\<not> bulk_refused files st"
  shows "history (handleBulkJsonImport fmt env files st)
           = snd (bulk_loop fmt env st (bulk_target env st) 0 files ([], [])) @ history st"
    and "stored_history (handleBulkJsonImport fmt env files st)
           = Some (history (handleBulkJsonImport fmt env files st))"
    and "bulkImportResults (handleBulkJsonImport fmt env files st)
           = fst (bulk_loop fmt env st (bulk_target env st) 0 files ([], []))"
    and "importConflict (handleBulkJsonImport fmt env files st) = importConflict st"
  using assms
  by (simp_all add: handleBulkJsonImport_def Let_def executeBatchImport_def saveFolders_def)

lemmas bulk_eval = handleBulkJsonImport_def bulk_refused_def bulk_ready_state_def
  initial_state_def Let_def executeBatchImport_def saveFolders_def bulk_file_def
  number_known_def payload_of_def bulk_result_def bulk_manifest_def or_else_def str_def
  bulk_target_def is_space_def

text \<open>
  Claim C3, as the specification states it, fails in one part: in a bulk import a file
  whose manifest number matches an earlier item of the same batch is imported when that
  earlier item was not imported itself. The duplicate test of the loop compares with the
  history and with the manifests accepted so far. In the batch below the first file has
  the number \<open>MF-1\<close> and no rows and is reported as invalid; the second has the same
  number and is imported.
\<close>

theorem bulk_import_counterexample:
  "p_manifestNo (payload_of (str ''MF-1'')) = p_manifestNo number_only_payload
 \<and> map bulk_status (bulkImportResults
       (handleBulkJsonImport fmt_none (example_env 0) same_number_batch bulk_ready_state))
     = [Error, Success]
 \<and> map manifestNo (history
       (handleBulkJsonImport fmt_none (example_env 0) same_number_batch bulk_ready_state))
     = [str ''MF-1'']"
  by (simp add: bulk_eval same_number_batch_def number_only_payload_def)

text \<open>
  Claim C3, amended. In the interactive import of one payload, a candidate whose manifest
  number equals that of a manifest in the history becomes the one pending conflict, paired
  with such a manifest, and nothing else changes: nothing is saved. In a bulk import that
  the handler does not refuse, a file whose manifest number is in the history or is that
  of a manifest imported from an earlier file of the same batch is reported as
  \<open>Duplicate skipped\<close>, adds no manifest, and the pending conflict stays as it was. The
  recycle bin is never consulted: a candidate whose number is not in the history is
  imported, in the interactive import without a conflict and in the bulk import with the
  report \<open>Imported\<close>, whatever the recycle bin holds.
\<close>

theorem import_deduplication:
  fixes fmt env st pre post name json content rs
  defines "candidate \<equiv> json_candidate fmt env content rs st"
  defines "target \<equiv> bulk_target env st"
  defines "earlier \<equiv> bulk_loop fmt env st (bulk_target env st) 0 pre ([], [])"
  defines "batch \<equiv> pre @ (name, Parsed json) # post"
  shows
  "(p_rows content = RowsArray rs
      \<and> list_ex (\<lambda>h. manifestNo h = manifestNo candidate) (history st) \<longrightarrow>
      (\<exists>existing. existing \<in> set (history st)
          \<and> manifestNo existing = manifestNo candidate
          \<and> handleJsonFile fmt env (Parsed content) st
              = st \<lparr> importConflict := Some (existing, candidate) \<rparr>))
 \<and> (p_rows content = RowsArray rs
      \<and> \<not> list_ex (\<lambda>h. manifestNo h = manifestNo candidate) (history st) \<longrightarrow>
      importConflict (handleJsonFile fmt env (Parsed content) st) = importConflict st
    \<and> history (handleJsonFile fmt env (Parsed content) st)
        = candidate \<lparr> manifest_id := uuid env 1,
                      folderId := (case currentFolderId st of
                                     None \<Rightarrow> None
                                   | Some f \<Rightarrow> if f = [] then None else Some f) \<rparr>
          # history st
    \<and> stored_history (handleJsonFile fmt env (Parsed content) st)
        = Some (history (handleJsonFile fmt env (Parsed content) st)))
 \<and> (\<not> bulk_refused batch st
      \<and> (number_known (p_manifestNo json) (history st)
          \<or> number_known (p_manifestNo json) (snd earlier)) \<longrightarrow>
      bulkImportResults (handleBulkJsonImport fmt env batch st) ! length pre
        = bulk_result name Warning ''Duplicate skipped''
    \<and> bulk_loop fmt env st target 0 batch ([], [])
        = bulk_loop fmt env st target (Suc (length pre)) post
            (fst earlier @ [bulk_result name Warning ''Duplicate skipped''], snd earlier)
    \<and> importConflict (handleBulkJsonImport fmt env batch st) = importConflict st)
 \<and> (\<not> bulk_refused batch st
      \<and> \<not> number_known (p_manifestNo json) (history st)
      \<and> \<not> number_known (p_manifestNo json) (snd earlier)
      \<and> p_rows json = RowsArray rs' \<longrightarrow>
      bulkImportResults (handleBulkJsonImport fmt env batch st) ! length pre
        = bulk_result name Success ''Imported''
    \<and> bulk_loop fmt env st target 0 batch ([], [])
        = bulk_loop fmt env st target (Suc (length pre)) post
            (fst earlier @ [bulk_result name Success ''Imported''],
             snd earlier @ [bulk_manifest fmt env st target (length pre) json rs']))
 \<and> (\<not> bulk_refused batch st \<longrightarrow>
      history (handleBulkJsonImport fmt env batch st)
        = snd (bulk_loop fmt env st target 0 batch ([], [])) @ history st
    \<and> stored_history (handleBulkJsonImport fmt env batch st)
        = Some (history (handleBulkJsonImport fmt env batch st)))"
proof -
  have conflict:
    "\<exists>existing. existing \<in> set (history st)
          \<and> manifestNo existing = manifestNo candidate
          \<and> handleJsonFile fmt env (Parsed content) st
              = st \<lparr> importConflict := Some (existing, candidate) \<rparr>"
    if h: "p_rows content = RowsArray rs"
       "list_ex (\<lambda>h. manifestNo h = manifestNo candidate) (history st)"
  proof -
    obtain x where x: "find (\<lambda>h. manifestNo h = manifestNo candidate) (history st) = Some x"
      "x \<in> set (history st)" "manifestNo x = manifestNo candidate"
      using find_known[OF h(2)] by blast
    have "handleJsonFile fmt env (Parsed content) st
            = st \<lparr> importConflict := Some (x, candidate) \<rparr>"
      unfolding candidate_def
      by (rule json_conflict[OF h(1) x(1)[unfolded candidate_def]])
    with x show ?thesis by blast
  qed
  have imported:
    "importConflict (handleJsonFile fmt env (Parsed content) st) = importConflict st
    \<and> history (handleJsonFile fmt env (Parsed content) st)
        = candidate \<lparr> manifest_id := uuid env 1,
                      folderId := (case currentFolderId st of
                                     None \<Rightarrow> None
                                   | Some f \<Rightarrow> if f = [] then None else Some f) \<rparr>
          # history st
    \<and> stored_history (handleJsonFile fmt env (Parsed content) st)
        = Some (history (handleJsonFile fmt env (Parsed content) st))"
    if h: "p_rows content = RowsArray rs"
       "\<not> list_ex (\<lambda>h. manifestNo h = manifestNo candidate) (history st)"
    using json_import(1,2,3)[OF h(1) find_unknown[OF h(2)[unfolded candidate_def]]]
    unfolding candidate_def by blast
  have position:
    "bulk_loop fmt env st target 0 batch ([], [])
       = bulk_loop fmt env st target (Suc (length pre)) post
           (bulk_file fmt env st target (length pre) name (Parsed json) earlier)"
    "fst (bulk_loop fmt env st target 0 batch ([], [])) ! length pre
       = last (fst (bulk_file fmt env st target (length pre) name (Parsed json) earlier))"
    unfolding batch_def earlier_def target_def by (rule bulk_at_position)+
  have skipped:
    "bulkImportResults (handleBulkJsonImport fmt env batch st) ! length pre
        = bulk_result name Warning ''Duplicate skipped''
    \<and> bulk_loop fmt env st target 0 batch ([], [])
        = bulk_loop fmt env st target (Suc (length pre)) post
            (fst earlier @ [bulk_result name Warning ''Duplicate skipped''], snd earlier)
    \<and> importConflict (handleBulkJsonImport fmt env batch st) = importConflict st"
    if h: "\<not> bulk_refused batch st"
       "number_known (p_manifestNo json) (history st)
        \<or> number_known (p_manifestNo json) (snd earlier)"
    using position bulk_handler(3,4)[OF h(1), of fmt env]
    by (simp add: bulk_duplicate_step[OF h(2)] target_def)
  have accepted:
    "bulkImportResults (handleBulkJsonImport fmt env batch st) ! length pre
        = bulk_result name Success ''Imported''
    \<and> bulk_loop fmt env st target 0 batch ([], [])
        = bulk_loop fmt env st target (Suc (length pre)) post
            (fst earlier @ [bulk_result name Success ''Imported''],
             snd earlier @ [bulk_manifest fmt env st target (length pre) json rs'])"
    if h: "\<not> bulk_refused batch st"
       "\<not> number_known (p_manifestNo json) (history st)"
       "\<not> number_known (p_manifestNo json) (snd earlier)"
       "p_rows json = RowsArray rs'"
    using position bulk_handler(3)[OF h(1), of fmt env]
    by (simp add: bulk_accept_step[OF h(2,3,4)] target_def)
  have saved:
    "history (handleBulkJsonImport fmt env batch st)
        = snd (bulk_loop fmt env st target 0 batch ([], [])) @ history st
    \<and> stored_history (handleBulkJsonImport fmt env batch st)
        = Some (history (handleBulkJsonImport fmt env batch st))"
    if h: "\<not> bulk_refused batch st"
    using bulk_handler(1,2)[OF h, of fmt env] by (simp add: target_def)
  show ?thesis
    using conflict imported skipped accepted saved by blast
qed

lemmas repo_eval = repo_state_def stored_manifest_def json_candidate_def three_file_batch_def

theorem import_deduplication_witness:
  "importConflict
     (handleJsonFile fmt_none (example_env 1) (Parsed (payload_of (str ''MF-1''))) repo_state)
     \<noteq> None
 \<and> history
     (handleJsonFile fmt_none (example_env 1) (Parsed (payload_of (str ''MF-1''))) repo_state)
     = history repo_state
 \<and> map manifestNo (recycleBin repo_state) = [str ''MF-9'']
 \<and> importConflict
     (handleJsonFile fmt_none (example_env 1) (Parsed (payload_of (str ''MF-9''))) repo_state)
     = None
 \<and> map manifestNo (history
       (handleJsonFile fmt_none (example_env 1) (Parsed (payload_of (str ''MF-9''))) repo_state))
     = [str ''MF-9'', str ''MF-1'']
 \<and> bulk_status (bulkImportResults
       (handleBulkJsonImport fmt_none (example_env 0) three_file_batch repo_state) ! 0) = Warning
 \<and> bulk_status (bulkImportResults
       (handleBulkJsonImport fmt_none (example_env 0) three_file_batch repo_state) ! 1) = Success
 \<and> bulk_status (bulkImportResults
       (handleBulkJsonImport fmt_none (example_env 0) three_file_batch repo_state) ! 2) = Warning
 \<and> map manifestNo (history
       (handleBulkJsonImport fmt_none (example_env 0) three_file_batch repo_state))
     = [str ''MF-9'', str ''MF-1'']"
proof -
  have a: "importConflict
       (handleJsonFile fmt_none (example_env 1) (Parsed (payload_of (str ''MF-1''))) repo_state)
       \<noteq> None
     \<and> history
       (handleJsonFile fmt_none (example_env 1) (Parsed (payload_of (str ''MF-1''))) repo_state)
       = history repo_state"
  proof -
    have hyp: "p_rows (payload_of (str ''MF-1'')) = RowsArray []
        \<and> list_ex (\<lambda>h. manifestNo h
              = manifestNo (json_candidate fmt_none (example_env 1) (payload_of (str ''MF-1''))
                              [] repo_state)) (history repo_state)"
      by (simp add: bulk_eval repo_eval)
    from import_deduplication[where fmt = fmt_none and env = "example_env 1"
        and content = "payload_of (str ''MF-1'')" and rs = "[]" and st = repo_state,
        THEN conjunct1, rule_format, OF hyp]
    obtain existing where
      "handleJsonFile fmt_none (example_env 1) (Parsed (payload_of (str ''MF-1''))) repo_state
         = repo_state \<lparr> importConflict := Some (existing,
             json_candidate fmt_none (example_env 1) (payload_of (str ''MF-1'')) [] repo_state) \<rparr>"
      by blast
    then show ?thesis by simp
  qed
  have b: "importConflict
       (handleJsonFile fmt_none (example_env 1) (Parsed (payload_of (str ''MF-9''))) repo_state)
       = None
     \<and> map manifestNo (history
         (handleJsonFile fmt_none (example_env 1) (Parsed (payload_of (str ''MF-9''))) repo_state))
       = [str ''MF-9'', str ''MF-1'']"
  proof -
    have hyp: "p_rows (payload_of (str ''MF-9'')) = RowsArray []
        \<and> \<not> list_ex (\<lambda>h. manifestNo h
              = manifestNo (json_candidate fmt_none (example_env 1) (payload_of (str ''MF-9''))
                              [] repo_state)) (history repo_state)"
      by (simp add: bulk_eval repo_eval)
    note r = import_deduplication[where fmt = fmt_none and env = "example_env 1"
        and content = "payload_of (str ''MF-9'')" and rs = "[]" and st = repo_state,
        THEN conjunct2, THEN conjunct1, rule_format, OF hyp]
    show ?thesis
      using r by (simp add: bulk_eval repo_eval)
  qed
  have c: "bulk_status (bulkImportResults
       (handleBulkJsonImport fmt_none (example_env 0) three_file_batch repo_state) ! 0) = Warning"
  proof -
    have hyp: "\<not> bulk_refused ([] @ (str ''a.json'', Parsed (payload_of (str ''MF-1'')))
                    # [(str ''b.json'', Parsed (payload_of (str ''MF-9''))),
                       (str ''c.json'', Parsed (payload_of (str ''MF-9'')))]) repo_state
        \<and> (number_known (p_manifestNo (payload_of (str ''MF-1''))) (history repo_state)
            \<or> number_known (p_manifestNo (payload_of (str ''MF-1'')))
                 (snd (bulk_loop fmt_none (example_env 0) repo_state
                         (bulk_target (example_env 0) repo_state) 0 [] ([], []))))"
      by (simp add: bulk_eval repo_eval)
    note r = import_deduplication[where fmt = fmt_none and env = "example_env 0"
        and st = repo_state and pre = "[]" and name = "str ''a.json''"
        and json = "payload_of (str ''MF-1'')"
        and post = "[(str ''b.json'', Parsed (payload_of (str ''MF-9''))),
                     (str ''c.json'', Parsed (payload_of (str ''MF-9'')))]",
        THEN conjunct2, THEN conjunct2, THEN conjunct1, rule_format, OF hyp]
    show ?thesis
      using r[THEN conjunct1] by (simp add: three_file_batch_def bulk_result_def)
  qed
  have d: "bulk_status (bulkImportResults
       (handleBulkJsonImport fmt_none (example_env 0) three_file_batch repo_state) ! 1) = Success"
  proof -
    have hyp: "\<not> bulk_refused ([(str ''a.json'', Parsed (payload_of (str ''MF-1'')))]
                    @ (str ''b.json'', Parsed (payload_of (str ''MF-9'')))
                    # [(str ''c.json'', Parsed (payload_of (str ''MF-9'')))]) repo_state
        \<and> \<not> number_known (p_manifestNo (payload_of (str ''MF-9''))) (history repo_state)
        \<and> \<not> number_known (p_manifestNo (payload_of (str ''MF-9'')))
                 (snd (bulk_loop fmt_none (example_env 0) repo_state
                         (bulk_target (example_env 0) repo_state) 0
                         [(str ''a.json'', Parsed (payload_of (str ''MF-1'')))] ([], [])))
        \<and> p_rows (payload_of (str ''MF-9'')) = RowsArray []"
      by (simp add: bulk_eval repo_eval)
    note r = import_deduplication[where fmt = fmt_none and env = "example_env 0"
        and st = repo_state
        and pre = "[(str ''a.json'', Parsed (payload_of (str ''MF-1'')))]"
        and name = "str ''b.json''" and json = "payload_of (str ''MF-9'')"
        and post = "[(str ''c.json'', Parsed (payload_of (str ''MF-9'')))]" and rs' = "[]",
        THEN conjunct2, THEN conjunct2, THEN conjunct2, THEN conjunct1, rule_format, OF hyp]
    show ?thesis
      using r[THEN conjunct1] by (simp add: three_file_batch_def bulk_result_def)
  qed
  have e: "bulk_status (bulkImportResults
       (handleBulkJsonImport fmt_none (example_env 0) three_file_batch repo_state) ! 2) = Warning
     \<and> map manifestNo (history
         (handleBulkJsonImport fmt_none (example_env 0) three_file_batch repo_state))
       = [str ''MF-9'', str ''MF-1'']"
  proof -
    have hyp: "\<not> bulk_refused ([(str ''a.json'', Parsed (payload_of (str ''MF-1''))),
                     (str ''b.json'', Parsed (payload_of (str ''MF-9'')))]
                    @ (str ''c.json'', Parsed (payload_of (str ''MF-9''))) # []) repo_state
        \<and> (number_known (p_manifestNo (payload_of (str ''MF-9''))) (history repo_state)
            \<or> number_known (p_manifestNo (payload_of (str ''MF-9'')))
                 (snd (bulk_loop fmt_none (example_env 0) repo_state
                         (bulk_target (example_env 0) repo_state) 0
                         [(str ''a.json'', Parsed (payload_of (str ''MF-1''))),
                          (str ''b.json'', Parsed (payload_of (str ''MF-9'')))] ([], []))))"
      by (simp add: bulk_eval repo_eval)
    note at = import_deduplication[where fmt = fmt_none and env = "example_env 0"
        and st = repo_state
        and pre = "[(str ''a.json'', Parsed (payload_of (str ''MF-1''))),
                    (str ''b.json'', Parsed (payload_of (str ''MF-9'')))]"
        and name = "str ''c.json''" and json = "payload_of (str ''MF-9'')" and post = "[]"]
    note r = at[THEN conjunct2, THEN conjunct2, THEN conjunct1, rule_format, OF hyp]
    note s = at[THEN conjunct2, THEN conjunct2, THEN conjunct2, THEN conjunct2, rule_format,
                OF hyp[THEN conjunct1]]
    show ?thesis
      using r[THEN conjunct1] s[THEN conjunct1]
      by (simp add: bulk_eval repo_eval)
  qed
  have bin: "map manifestNo (recycleBin repo_state) = [str ''MF-9'']"
    by (simp add: repo_eval bulk_ready_state_def initial_state_def)
  show ?thesis
    using a b c d e bin by simp
qed

section \<open>The queue drain\<close>

text \<open>
  A run of \<open>processChunkQueue\<close> in the default mode sends the head of the queue of its
  render to the recognition service, whatever the current queue is.
\<close>

lemma run_sends_render_head:
  assumes "chunkSession render = Some cs" "pendingChunks cs = c # rest"
      and "aiMode cs = ModeDefault"
  shows "sent (snd (processChunkQueue fmt service env render w)) = sent w @ [images c]"
  using assms
  by (simp add: processChunkQueue_def recognize_def update_session_def Let_def
        split: option.splits)

lemma three_chunks_session:
  "map images (pendingChunks (the (chunkSession three_chunks))) = [[page 1], [page 2], [page 3]]"
  "history three_chunks = []"
  by (simp_all add: three_chunks_def startChunkSession_def handleChunkCapture_def
        finishCurrentChunk_def saveChunkSession_def Let_def initial_state_def)

lemma two_then_fail_calls:
  "parseBillingDocument (two_then_fail 0) False
     = Some \<lparr> result_manifestNo = None, result_manifestDate = None, result_items = Some [] \<rparr>"
  "parseBillingDocument (two_then_fail (Suc 0)) False
     = Some \<lparr> result_manifestNo = None, result_manifestDate = None, result_items = Some [] \<rparr>"
  "parseBillingDocument (two_then_fail (Suc (Suc 0))) False = None"
  by (simp_all add: parseBillingDocument_def two_then_fail_def first_response_def)

lemmas drain_eval = processChunkQueue_def recognize_def two_then_fail_calls update_session_def
  saveChunkSession_def log_processing_def Let_def three_chunks_def startChunkSession_def
  handleChunkCapture_def finishCurrentChunk_def initial_state_def

lemma drained_result:
  "drained \<noteq> None"
  "sent (the drained) = [[page 1], [page 1], [page 1]]"
  "map images (pendingChunks (the (chunkSession (app (the drained))))) = [[page 3]]"
  "processedCount (the (chunkSession (app (the drained)))) = 2"
  "isProcessing (the (chunkSession (app (the drained)))) = False"
  "map folderId (history (app (the drained)))
     = [Some (session_folderId (the (chunkSession three_chunks))),
        Some (session_folderId (the (chunkSession three_chunks)))]"
  unfolding drained_def start_processing_def
  by (subst drain.simps, subst drain.simps, subst drain.simps, simp add: drain_eval)+

text \<open>
  Claim C2 at its scenario. The session holds three closed chunks, with the pages 1, 2 and
  3, the strategy is \<open>default\<close>, the first two calls of the recognition service succeed
  and the third fails on both tiers. The drain ends, with two chunks counted as
  processed, one chunk in the queue, the processing flag off and two new manifests in the
  folder of the session, as the claim says. But all three calls were given page 1, the
  chunk of the first run: the timer starts the handler of the first render again, which
  reads the queue of that render. The chunk with page 2 was removed from the queue
  without having been sent, both manifests come from page 1, and the chunk left at the
  head of the queue, with page 3, is not the one whose recognition failed.
\<close>

theorem processChunkQueue_stale_drain:
  "drained \<noteq> None
 \<and> history three_chunks = []
 \<and> map images (pendingChunks (the (chunkSession three_chunks))) = [[page 1], [page 2], [page 3]]
 \<and> sent (the drained) = [[page 1], [page 1], [page 1]]
 \<and> map images (pendingChunks (the (chunkSession (app (the drained))))) = [[page 3]]
 \<and> processedCount (the (chunkSession (app (the drained)))) = 2
 \<and> isProcessing (the (chunkSession (app (the drained)))) = False
 \<and> map folderId (history (app (the drained)))
     = [Some (session_folderId (the (chunkSession three_chunks))),
        Some (session_folderId (the (chunkSession three_chunks)))]"
  using drained_result three_chunks_session by simp

end
